theory Spec2Isabelle
  imports Main
begin

section \<open>AWS credential services and request signing (plugins/rest/aws.go)\<close>

text \<open>
  A shallow embedding of \<^verbatim>\<open>plugins/rest/aws.go\<close>: the credential services that read
  the process environment, the EC2/ECS metadata service and the STS web identity
  service, and \<^verbatim>\<open>signV4\<close>, which signs an outgoing request.

  Everything the Go code reads from outside the program is a field of the record
  \<open>world\<close> (process environment, wall clock, files, the HTTP transport together with
  the list of requests handed to it). Functions of Go's standard library and of the
  package \<^verbatim>\<open>internal/providers/aws\<close> that the file calls, but whose code is not part of
  it, are fields of the record \<open>externals\<close>; every theorem holds for all of them.
  A Go \<^verbatim>\<open>error\<close> is a \<open>string option\<close> (\<open>None\<close> is \<^verbatim>\<open>nil\<close>, \<open>Some msg\<close> an error with
  that text). A run-time panic is the outcome \<open>Panics\<close>. Calls on the logger only write
  log lines and are left out.
\<close>

subsection \<open>Data\<close>

text \<open>
  \<^verbatim>\<open>time.Time\<close> as an instant: nanoseconds since the zero value of \<^verbatim>\<open>time.Time\<close>, which
  is therefore \<open>0\<close>. \<^verbatim>\<open>Add\<close> is addition, \<^verbatim>\<open>Before\<close> is \<open><\<close>, and \<^verbatim>\<open>UTC\<close> keeps the instant.
\<close>

type_synonym time = int

definition Minute :: int where
  "Minute = 60 * 1000000000"

definition UTC :: "time \<Rightarrow> time" where
  "UTC t = t"

text \<open>\<^verbatim>\<open>aws.Credentials\<close>, with the four fields the file reads and writes.\<close>

record Credentials =
  AccessKey :: string
  SecretKey :: string
  RegionName :: string
  SessionToken :: string

definition zero_Credentials :: Credentials where
  "zero_Credentials = \<lparr>AccessKey = [], SecretKey = [], RegionName = [], SessionToken = []\<rparr>"

text \<open>
  \<^verbatim>\<open>http.Header\<close> is \<^verbatim>\<open>map[string][]string\<close>; a request's header field may be the nil
  map (\<open>None\<close>). A body is an \<^verbatim>\<open>io.ReadCloser\<close>: the bytes it still yields, and the error
  its reading ends with, if any.
\<close>

type_synonym header = "string \<rightharpoonup> string list"

record reader =
  pending :: string
  read_error :: "string option"

record request =
  Method :: string
  URL :: string
  Header :: "header option"
  Body :: "reader option"

datatype http_result =
  TransportError string
  | Response int string "string + string"

datatype 'a outcome = Returns 'a | Panics string

text \<open>The JSON payload of the metadata service and the credentials block of the STS reply.\<close>

record metadataPayload =
  Code :: string
  AccessKeyID :: string
  SecretAccessKey :: string
  Token :: string
  Expiration :: time

record responsePayload =
  sts_SessionToken :: string
  sts_SecretAccessKey :: string
  sts_Expiration :: time
  sts_AccessKeyID :: string

text \<open>
  The outside world. \<open>clock\<close> is what \<^verbatim>\<open>time.Now()\<close> returns; \<open>files\<close> is
  \<^verbatim>\<open>os.ReadFile\<close> (\<open>Inl\<close> its error); \<open>transport\<close> is \<^verbatim>\<open>client.Do\<close>, whose answer may
  depend on the requests sent before; \<open>sent\<close> lists the requests handed to
  \<^verbatim>\<open>client.Do\<close> so far, oldest first.
\<close>

record world =
  env :: "string \<rightharpoonup> string"
  clock :: time
  files :: "string \<Rightarrow> string + string"
  transport :: "request list \<Rightarrow> request \<Rightarrow> http_result"
  sent :: "request list"

text \<open>
  Code that is called but not part of the file. \<open>new_request_error\<close> is the error of
  \<^verbatim>\<open>http.NewRequest\<close> for a method and a URL; \<open>url_Parse\<close> is \<^verbatim>\<open>url.Parse\<close> followed by
  \<^verbatim>\<open>String()\<close>, \<open>None\<close> when parsing fails (the parsed URL is then nil);
  \<open>SignV4\<close> and \<open>SignV4a\<close> are the signers of \<^verbatim>\<open>internal/providers/aws\<close>. A Go map that
  is ranged over is an association list in the order of the iteration.
\<close>

record externals =
  CanonicalMIMEHeaderKey :: "string \<Rightarrow> string"
  ToLower :: "string \<Rightarrow> string"
  new_request_error :: "string \<Rightarrow> string \<Rightarrow> string option"
  url_Parse :: "string \<Rightarrow> string option"
  Values_Encode :: "(string \<times> string list) list \<Rightarrow> string"
  json_Unmarshal :: "string \<Rightarrow> string + metadataPayload"
  xml_Unmarshal :: "string \<Rightarrow> string + responsePayload"
  SignV4 :: "header option \<Rightarrow> string \<Rightarrow> string \<Rightarrow> string \<Rightarrow> string \<Rightarrow> Credentials \<Rightarrow> time
    \<Rightarrow> string \<times> (string \<times> string) list"
  SignV4a :: "header option \<Rightarrow> string \<Rightarrow> string \<Rightarrow> string \<Rightarrow> string \<Rightarrow> Credentials \<Rightarrow> time
    \<Rightarrow> header option"

subsection \<open>Constants\<close>

definition ec2DefaultCredServicePath :: string where
  "ec2DefaultCredServicePath = ''http://169.254.169.254/latest/meta-data/iam/security-credentials/''"

definition ec2DefaultTokenPath :: string where
  "ec2DefaultTokenPath = ''http://169.254.169.254/latest/api/token''"

definition ecsDefaultCredServicePath :: string where
  "ecsDefaultCredServicePath = ''http://169.254.170.2''"

definition ecsRelativePathEnvVar :: string where
  "ecsRelativePathEnvVar = ''AWS_CONTAINER_CREDENTIALS_RELATIVE_URI''"

definition stsDefaultPath :: string where
  "stsDefaultPath = ''https://sts.amazonaws.com''"

definition accessKeyEnvVar :: string where
  "accessKeyEnvVar = ''AWS_ACCESS_KEY_ID''"

definition secretKeyEnvVar :: string where
  "secretKeyEnvVar = ''AWS_SECRET_ACCESS_KEY''"

definition securityTokenEnvVar :: string where
  "securityTokenEnvVar = ''AWS_SECURITY_TOKEN''"

definition sessionTokenEnvVar :: string where
  "sessionTokenEnvVar = ''AWS_SESSION_TOKEN''"

definition awsRegionEnvVar :: string where
  "awsRegionEnvVar = ''AWS_REGION''"

definition awsRoleArnEnvVar :: string where
  "awsRoleArnEnvVar = ''AWS_ROLE_ARN''"

definition awsWebIdentityTokenFileEnvVar :: string where
  "awsWebIdentityTokenFileEnvVar = ''AWS_WEB_IDENTITY_TOKEN_FILE''"

subsection \<open>Library calls\<close>

text \<open>\<^verbatim>\<open>os.Getenv\<close> returns the empty string for an unset variable; \<^verbatim>\<open>os.LookupEnv\<close> tells
  an unset variable from an empty one.\<close>

definition Getenv :: "world \<Rightarrow> string \<Rightarrow> string" where
  "Getenv w k = (case env w k of None \<Rightarrow> [] | Some v \<Rightarrow> v)"

definition LookupEnv :: "world \<Rightarrow> string \<Rightarrow> string option" where
  "LookupEnv w k = env w k"

text \<open>\<^verbatim>\<open>Header.Set\<close>, \<^verbatim>\<open>Header.Add\<close> and \<^verbatim>\<open>Header.Values\<close> on an allocated map.\<close>

definition Header_Values :: "externals \<Rightarrow> header \<Rightarrow> string \<Rightarrow> string list" where
  "Header_Values L h k = (case h (CanonicalMIMEHeaderKey L k) of None \<Rightarrow> [] | Some vs \<Rightarrow> vs)"

definition Header_Set :: "externals \<Rightarrow> header \<Rightarrow> string \<Rightarrow> string \<Rightarrow> header" where
  "Header_Set L h k v = h(CanonicalMIMEHeaderKey L k \<mapsto> [v])"

definition Header_Add :: "externals \<Rightarrow> header \<Rightarrow> string \<Rightarrow> string \<Rightarrow> header" where
  "Header_Add L h k v = h(CanonicalMIMEHeaderKey L k \<mapsto> Header_Values L h k @ [v])"

text \<open>\<^verbatim>\<open>io.ReadAll\<close>: the bytes read and the error, and the reader left exhausted.
  \<^verbatim>\<open>bytes.NewReader\<close> (under \<^verbatim>\<open>io.NopCloser\<close>) and \<^verbatim>\<open>strings.NewReader\<close>: a reader that
  yields the given bytes and ends without error.\<close>

definition ReadAll :: "reader \<Rightarrow> (string \<times> string option) \<times> reader" where
  "ReadAll r = ((pending r, read_error r), r\<lparr>pending := []\<rparr>)"

definition NewReader :: "string \<Rightarrow> reader" where
  "NewReader b = \<lparr>pending = b, read_error = None\<rparr>"

text \<open>\<^verbatim>\<open>http.NewRequest\<close>: the request has an allocated, empty header map.\<close>

definition NewRequest :: "externals \<Rightarrow> string \<Rightarrow> string \<Rightarrow> reader option \<Rightarrow> string + request" where
  "NewRequest L method u body =
     (case new_request_error L method u of
        Some e \<Rightarrow> Inl e
      | None \<Rightarrow> Inr \<lparr>Method = method, URL = u, Header = Some Map.empty, Body = body\<rparr>)"

subsection \<open>awsEnvironmentCredentialService\<close>

definition awsEnvironmentCredentialService_credentials :: "world \<Rightarrow> Credentials \<times> string option" where
  "awsEnvironmentCredentialService_credentials w =
     (let creds = zero_Credentials;
          creds = creds\<lparr>AccessKey := Getenv w accessKeyEnvVar\<rparr> in
      if AccessKey creds = [] then
        (creds, Some (''no '' @ accessKeyEnvVar @ '' set in environment''))
      else
        let creds = creds\<lparr>SecretKey := Getenv w secretKeyEnvVar\<rparr> in
        if SecretKey creds = [] then
          (creds, Some (''no '' @ secretKeyEnvVar @ '' set in environment''))
        else
          let creds = creds\<lparr>RegionName := Getenv w awsRegionEnvVar\<rparr> in
          if RegionName creds = [] then
            (creds, Some (''no '' @ awsRegionEnvVar @ '' set in environment''))
          else
            let creds = creds\<lparr>SessionToken := Getenv w sessionTokenEnvVar\<rparr>;
                creds = (if SessionToken creds = []
                         then creds\<lparr>SessionToken := Getenv w securityTokenEnvVar\<rparr>
                         else creds) in
            (creds, None))"

subsection \<open>Requests to the metadata and STS services\<close>

text \<open>\<^verbatim>\<open>req.Header.Set\<close> and \<^verbatim>\<open>req.Header.Add\<close> on a request that \<^verbatim>\<open>http.NewRequest\<close> has just
  built: its header map is allocated, so the nil case does not arise there.\<close>

definition req_Header_Set :: "externals \<Rightarrow> request \<Rightarrow> string \<Rightarrow> string \<Rightarrow> request" where
  "req_Header_Set L req k v = req\<lparr>Header := map_option (\<lambda>h. Header_Set L h k v) (Header req)\<rparr>"

definition req_Header_Add :: "externals \<Rightarrow> request \<Rightarrow> string \<Rightarrow> string \<Rightarrow> request" where
  "req_Header_Add L req k v = req\<lparr>Header := map_option (\<lambda>h. Header_Add L h k v) (Header req)\<rparr>"

text \<open>The request is handed to \<^verbatim>\<open>client.Do\<close> and so joins \<open>sent\<close>, whatever the answer.
  The result is the body (\<open>Inr\<close>) or the error (\<open>Inl\<close>).\<close>

definition doMetaDataRequestWithClient :: "request \<Rightarrow> string \<Rightarrow> world \<Rightarrow> (string + string) \<times> world" where
  "doMetaDataRequestWithClient req desc w =
     (let w' = w\<lparr>sent := sent w @ [req]\<rparr> in
      case transport w (sent w) req of
        TransportError e \<Rightarrow> (Inl (desc @ '' HTTP request failed: '' @ e), w')
      | Response StatusCode Status body \<Rightarrow>
          if StatusCode \<noteq> 200 then
            (Inl (desc @ '' HTTP request returned unexpected status: '' @ Status), w')
          else
            (case body of
               Inl e \<Rightarrow> (Inl (desc @ '' HTTP response body could not be read: '' @ e), w')
             | Inr b \<Rightarrow> (Inr b, w')))"

definition isECS :: "world \<Rightarrow> bool" where
  "isECS w = (LookupEnv w ecsRelativePathEnvVar \<noteq> None)"

subsection \<open>awsMetadataCredentialService\<close>

record awsMetadataCredentialService =
  md_RoleName :: string
  md_RegionName :: string
  md_creds :: Credentials
  md_expiration :: time
  md_credServicePath :: string
  md_tokenPath :: string

definition urlForMetadataService :: "awsMetadataCredentialService \<Rightarrow> world \<Rightarrow> string + string" where
  "urlForMetadataService cs w =
     (if md_credServicePath cs \<noteq> [] then Inr (md_credServicePath cs @ md_RoleName cs)
      else if md_RoleName cs \<noteq> [] then Inr (ec2DefaultCredServicePath @ md_RoleName cs)
      else if isECS w then Inr (ecsDefaultCredServicePath @ Getenv w ecsRelativePathEnvVar)
      else Inl ''metadata endpoint cannot be determined from settings and environment'')"

definition tokenRequest :: "externals \<Rightarrow> awsMetadataCredentialService \<Rightarrow> string + request" where
  "tokenRequest L cs =
     (let tokenURL = (if md_tokenPath cs \<noteq> [] then md_tokenPath cs else ec2DefaultTokenPath) in
      case NewRequest L ''PUT'' tokenURL None of
        Inl err \<Rightarrow> Inl err
      | Inr req \<Rightarrow> Inr (req_Header_Set L req ''X-aws-ec2-metadata-token-ttl-seconds'' ''60''))"

text \<open>The part of \<^verbatim>\<open>refreshFromService\<close> between the freshness check and the check of
  the payload: the endpoint, the token handshake outside ECS, the metadata request and
  the parsing of its body.\<close>

definition awsMetadataCredentialService_fetchPayload ::
  "externals \<Rightarrow> awsMetadataCredentialService \<Rightarrow> world \<Rightarrow> (string + metadataPayload) \<times> world" where
  "awsMetadataCredentialService_fetchPayload L cs w =
     (case urlForMetadataService cs w of
        Inl err \<Rightarrow> (Inl err, w)
      | Inr metaDataURL \<Rightarrow>
          (case NewRequest L ''GET'' metaDataURL None of
             Inl err \<Rightarrow> (Inl (''unable to construct metadata HTTP request: '' @ err), w)
           | Inr req \<Rightarrow>
               (case (if \<not> isECS w then
                        (case tokenRequest L cs of
                           Inl err \<Rightarrow>
                             (Inl (''unable to construct metadata token HTTP request: '' @ err), w)
                         | Inr tokenReq \<Rightarrow>
                             (case doMetaDataRequestWithClient tokenReq ''metadata token'' w of
                                (Inl err, w1) \<Rightarrow> (Inl err, w1)
                              | (Inr body, w1) \<Rightarrow>
                                  (Inr (req_Header_Set L req ''X-aws-ec2-metadata-token'' body), w1)))
                      else (Inr req, w)) of
                  (Inl err, w1) \<Rightarrow> (Inl err, w1)
                | (Inr req, w1) \<Rightarrow>
                    (case doMetaDataRequestWithClient req ''metadata'' w1 of
                       (Inl err, w2) \<Rightarrow> (Inl err, w2)
                     | (Inr body, w2) \<Rightarrow>
                         (case json_Unmarshal L body of
                            Inl err \<Rightarrow>
                              (Inl (''failed to parse credential response from metadata service: '' @ err), w2)
                          | Inr payload \<Rightarrow> (Inr payload, w2))))))"

definition awsMetadataCredentialService_refreshFromService ::
  "externals \<Rightarrow> awsMetadataCredentialService \<Rightarrow> world
     \<Rightarrow> string option \<times> awsMetadataCredentialService \<times> world" where
  "awsMetadataCredentialService_refreshFromService L cs w =
     (if clock w + Minute * 5 < md_expiration cs then (None, cs, w)
      else
        (case awsMetadataCredentialService_fetchPayload L cs w of
           (Inl err, w') \<Rightarrow> (Some err, cs, w')
         | (Inr payload, w') \<Rightarrow>
             if md_RoleName cs \<noteq> [] \<and> Code payload \<noteq> ''Success'' then
               (Some (''metadata service query did not succeed: '' @ Code payload), cs, w')
             else
               (None,
                cs\<lparr>md_expiration := Expiration payload,
                   md_creds := (md_creds cs)\<lparr>AccessKey := AccessKeyID payload,
                                             SecretKey := SecretAccessKey payload,
                                             SessionToken := Token payload,
                                             RegionName := md_RegionName cs\<rparr>\<rparr>,
                w')))"

definition awsMetadataCredentialService_credentials ::
  "externals \<Rightarrow> awsMetadataCredentialService \<Rightarrow> world
     \<Rightarrow> (Credentials \<times> string option) \<times> awsMetadataCredentialService \<times> world" where
  "awsMetadataCredentialService_credentials L cs w =
     (case awsMetadataCredentialService_refreshFromService L cs w of
        (Some err, cs', w') \<Rightarrow> ((md_creds cs', Some err), cs', w')
      | (None, cs', w') \<Rightarrow> ((md_creds cs', None), cs', w'))"

subsection \<open>awsWebIdentityCredentialService\<close>

record awsWebIdentityCredentialService =
  wi_RoleArn :: string
  wi_WebIdentityTokenFile :: string
  wi_RegionName :: string
  wi_SessionName :: string
  wi_stsURL :: string
  wi_creds :: Credentials
  wi_expiration :: time

definition populateFromEnv ::
  "awsWebIdentityCredentialService \<Rightarrow> world \<Rightarrow> string option \<times> awsWebIdentityCredentialService" where
  "populateFromEnv cs w =
     (let cs = cs\<lparr>wi_RoleArn := Getenv w awsRoleArnEnvVar\<rparr> in
      if wi_RoleArn cs = [] then
        (Some (''no '' @ awsRoleArnEnvVar @ '' set in environment''), cs)
      else
        let cs = cs\<lparr>wi_WebIdentityTokenFile := Getenv w awsWebIdentityTokenFileEnvVar\<rparr> in
        if wi_WebIdentityTokenFile cs = [] then
          (Some (''no '' @ awsWebIdentityTokenFileEnvVar @ '' set in environment''), cs)
        else if wi_RegionName cs = [] then
          (let cs = cs\<lparr>wi_RegionName := Getenv w awsRegionEnvVar\<rparr> in
           if wi_RegionName cs = [] then
             (Some (''no '' @ awsRegionEnvVar @ '' set in environment or configuration''), cs)
           else (None, cs))
        else (None, cs))"

text \<open>\<^verbatim>\<open>fmt.Sprintf(stsRegionPath, s)\<close> with the pattern \<^verbatim>\<open>https://sts.%s.amazonaws.com\<close>.\<close>

definition stsPath :: "externals \<Rightarrow> awsWebIdentityCredentialService \<Rightarrow> string" where
  "stsPath L cs =
     (if wi_stsURL cs \<noteq> [] then wi_stsURL cs
      else if wi_RegionName cs \<noteq> [] then
        ''https://sts.'' @ ToLower L (wi_RegionName cs) @ ''.amazonaws.com''
      else stsDefaultPath)"

text \<open>The error of \<^verbatim>\<open>url.Parse\<close> is dropped by the code; when parsing fails the URL is nil
  and calling \<^verbatim>\<open>String()\<close> on it panics.\<close>

definition awsWebIdentityCredentialService_refreshFromService ::
  "externals \<Rightarrow> awsWebIdentityCredentialService \<Rightarrow> world
     \<Rightarrow> (string option \<times> awsWebIdentityCredentialService \<times> world) outcome" where
  "awsWebIdentityCredentialService_refreshFromService L cs w =
     (if clock w + Minute * 5 < wi_expiration cs then Returns (None, cs, w)
      else
        (let sessionName = (if wi_SessionName cs = [] then ''open-policy-agent''
                            else wi_SessionName cs) in
         (case files w (wi_WebIdentityTokenFile cs) of
            Inl err \<Rightarrow>
              Returns (Some (''unable to read web token for sts HTTP request: '' @ err), cs, w)
          | Inr tokenData \<Rightarrow>
              (let token = tokenData;
                   queryVals = [(''Action'', [''AssumeRoleWithWebIdentity'']),
                                (''RoleSessionName'', [sessionName]),
                                (''RoleArn'', [wi_RoleArn cs]),
                                (''WebIdentityToken'', [token]),
                                (''Version'', [''2011-06-15''])] in
               (case url_Parse L (stsPath L cs) of
                  None \<Rightarrow> Panics ''invalid memory address or nil pointer dereference''
                | Some stsRequestURL \<Rightarrow>
                    (case NewRequest L ''POST'' stsRequestURL
                            (Some (NewReader (Values_Encode L queryVals))) of
                       Inl err \<Rightarrow>
                         Returns (Some (''unable to construct STS HTTP request: '' @ err), cs, w)
                     | Inr req \<Rightarrow>
                         (let req = req_Header_Add L req ''Content-Type''
                                      ''application/x-www-form-urlencoded'' in
                          (case doMetaDataRequestWithClient req ''STS'' w of
                             (Inl err, w') \<Rightarrow> Returns (Some err, cs, w')
                           | (Inr body, w') \<Rightarrow>
                               (case xml_Unmarshal L body of
                                  Inl err \<Rightarrow>
                                    Returns
                                      (Some (''failed to parse credential response from STS service: '' @ err),
                                       cs, w')
                                | Inr payload \<Rightarrow>
                                    Returns (None,
                                      cs\<lparr>wi_expiration := sts_Expiration payload,
                                         wi_creds :=
                                           (wi_creds cs)\<lparr>AccessKey := sts_AccessKeyID payload,
                                                         SecretKey := sts_SecretAccessKey payload,
                                                         SessionToken := sts_SessionToken payload,
                                                         RegionName := wi_RegionName cs\<rparr>\<rparr>,
                                      w'))))))))))"

definition awsWebIdentityCredentialService_credentials ::
  "externals \<Rightarrow> awsWebIdentityCredentialService \<Rightarrow> world
     \<Rightarrow> ((Credentials \<times> string option) \<times> awsWebIdentityCredentialService \<times> world) outcome" where
  "awsWebIdentityCredentialService_credentials L cs w =
     (case awsWebIdentityCredentialService_refreshFromService L cs w of
        Panics p \<Rightarrow> Panics p
      | Returns (Some err, cs', w') \<Rightarrow> Returns ((wi_creds cs', Some err), cs', w')
      | Returns (None, cs', w') \<Rightarrow> Returns ((wi_creds cs', None), cs', w'))"

subsection \<open>signV4\<close>

text \<open>
  \<^verbatim>\<open>credService\<close> is a value of the interface \<^verbatim>\<open>awsCredentialService\<close>: here its method
  \<open>credentials\<close>, a function on a state \<open>'s\<close> that holds whatever the service reads
  and writes, and the state itself. \<^verbatim>\<open>Header.Set\<close> on a nil header map panics.
  \<open>awsHeaders\<close> is ranged over in the order of the list.
\<close>

definition signV4 ::
  "externals \<Rightarrow> ('s \<Rightarrow> ((Credentials \<times> string option) \<times> 's) outcome) \<Rightarrow> request \<Rightarrow> string \<Rightarrow> 's
     \<Rightarrow> time \<Rightarrow> string \<Rightarrow> (string option \<times> request \<times> 's) outcome" where
  "signV4 L credentials req service credService theTime sigVersion =
     (case (case Body req of
              None \<Rightarrow> (Inr [], req)
            | Some rd \<Rightarrow>
                (case ReadAll rd of
                   ((body, Some err), rd') \<Rightarrow>
                     (Inl (''error getting request body: '' @ err), req\<lparr>Body := Some rd'\<rparr>)
                 | ((body, None), rd') \<Rightarrow>
                     (Inr body, req\<lparr>Body := Some (NewReader body)\<rparr>))) of
        (Inl err, req) \<Rightarrow> Returns (Some err, req, credService)
      | (Inr body, req) \<Rightarrow>
          (case credentials credService of
             Panics p \<Rightarrow> Panics p
           | Returns ((creds, Some err), credService) \<Rightarrow>
               Returns (Some (''error getting AWS credentials: '' @ err), req, credService)
           | Returns ((creds, None), credService) \<Rightarrow>
               (let now = UTC theTime in
                if sigVersion = ''4a'' then
                  (let signedHeaders =
                         SignV4a L (Header req) (Method req) (URL req) body service creds now in
                   Returns (None, req\<lparr>Header := signedHeaders\<rparr>, credService))
                else
                  (case SignV4 L (Header req) (Method req) (URL req) body service creds now of
                     (authHeader, awsHeaders) \<Rightarrow>
                       (case Header req of
                          None \<Rightarrow> Panics ''assignment to entry in nil map''
                        | Some h \<Rightarrow>
                            Returns (None,
                              req\<lparr>Header :=
                                    Some (fold (\<lambda>(k, v) h. Header_Add L h k v) awsHeaders
                                            (Header_Set L h ''Authorization'' authHeader))\<rparr>,
                              credService))))))"

text \<open>The services of the file as values of the interface: their \<open>credentials\<close> methods on
  the state they read and write.\<close>

definition environment_credService :: "world \<Rightarrow> ((Credentials \<times> string option) \<times> world) outcome" where
  "environment_credService w = Returns (awsEnvironmentCredentialService_credentials w, w)"

definition metadata_credService ::
  "externals \<Rightarrow> awsMetadataCredentialService \<times> world
     \<Rightarrow> ((Credentials \<times> string option) \<times> awsMetadataCredentialService \<times> world) outcome" where
  "metadata_credService L s = Returns (awsMetadataCredentialService_credentials L (fst s) (snd s))"

definition webIdentity_credService ::
  "externals \<Rightarrow> awsWebIdentityCredentialService \<times> world
     \<Rightarrow> ((Credentials \<times> string option) \<times> awsWebIdentityCredentialService \<times> world) outcome" where
  "webIdentity_credService L s = awsWebIdentityCredentialService_credentials L (fst s) (snd s)"

subsection \<open>Concrete inputs\<close>

text \<open>
  Inputs on which the theorems below are evaluated, after the test servers of the
  repository's tests: a metadata server that knows the role \<^verbatim>\<open>my_iam_role\<close> and answers
  404 elsewhere, an STS server, and stand-ins for the library functions.
\<close>

definition test_payload :: metadataPayload where
  "test_payload = \<lparr>Code = ''Success'', AccessKeyID = ''MYAWSACCESSKEYGOESHERE'',
     SecretAccessKey = ''MYAWSSECRETACCESSKEYGOESHERE'', Token = ''MYAWSSECURITYTOKENGOESHERE'',
     Expiration = 300 * Minute\<rparr>"

definition test_sts_payload :: responsePayload where
  "test_sts_payload = \<lparr>sts_SessionToken = ''AQoDYXdzEE0a8ANXXXXXXXXNO1ewxE5TijQyp+IEXAMPLE'',
     sts_SecretAccessKey = ''wJalrXUtnFEMI/K7MDENG/bPxRfiCYzEXAMPLEKEY'',
     sts_Expiration = 60 * Minute, sts_AccessKeyID = ''ASgeIAIOSFODNN7EXAMPLE''\<rparr>"

definition test_externals :: externals where
  "test_externals =
     \<lparr>CanonicalMIMEHeaderKey =
        (\<lambda>k. if k = ''host'' then ''Host'' else if k = ''x-amz-date'' then ''X-Amz-Date'' else k),
      ToLower = (\<lambda>s. s),
      new_request_error = (\<lambda>method u. None),
      url_Parse = (\<lambda>u. Some u),
      Values_Encode = (\<lambda>vs. concat (map (\<lambda>(k, v). k @ ''='' @ concat v @ ''&'') vs)),
      json_Unmarshal =
        (\<lambda>b. if b = ''Success'' then Inr test_payload
             else if b = ''Failure'' then Inr (test_payload\<lparr>Code := ''Failure''\<rparr>)
             else if b = ''NoCode'' then Inr (test_payload\<lparr>Code := []\<rparr>)
             else Inl ''invalid character''),
      xml_Unmarshal = (\<lambda>b. if b = ''Credentials'' then Inr test_sts_payload else Inl ''EOF''),
      SignV4 =
        (\<lambda>h method u body service creds t.
           (''AWS4-HMAC-SHA256 Credential='' @ AccessKey creds,
            [(''host'', ''mybucket.s3.amazonaws.com''), (''x-amz-date'', ''20190424T181457Z'')])),
      SignV4a =
        (\<lambda>h method u body service creds t.
           Some [''Authorization'' \<mapsto> [''AWS4-ECDSA-P256-SHA256 Credential='' @ AccessKey creds]])\<rparr>"

definition test_transport :: "request list \<Rightarrow> request \<Rightarrow> http_result" where
  "test_transport history req =
     (if URL req = ''http://test/token'' then Response 200 ''200 OK'' (Inr ''THIS_IS_A_GOOD_TOKEN'')
      else if URL req = ''http://test/creds/my_iam_role'' then Response 200 ''200 OK'' (Inr ''Success'')
      else if URL req = ''http://test/creds/failing_role'' then Response 200 ''200 OK'' (Inr ''Failure'')
      else if URL req = ''http://169.254.170.2/v2/credentials/task'' then
        Response 200 ''200 OK'' (Inr ''NoCode'')
      else if URL req = ''http://test/sts'' then Response 200 ''200 OK'' (Inr ''Credentials'')
      else if URL req = ''http://test/sts/unauthorized'' then Response 401 ''401 Unauthorized'' (Inr [])
      else Response 404 ''404 Not Found'' (Inr []))"

definition test_world :: world where
  "test_world =
     \<lparr>env = Map.empty, clock = 0,
      files = (\<lambda>path. if path = ''good_token_file'' then Inr ''good-token''
                      else Inl ''no such file or directory''),
      transport = test_transport, sent = []\<rparr>"

definition test_env_world :: world where
  "test_env_world =
     test_world\<lparr>env := [accessKeyEnvVar \<mapsto> ''MYAWSACCESSKEYGOESHERE'',
                        secretKeyEnvVar \<mapsto> ''MYAWSSECRETACCESSKEYGOESHERE'',
                        awsRegionEnvVar \<mapsto> ''us-east-1'']\<rparr>"

definition cached_creds :: Credentials where
  "cached_creds = \<lparr>AccessKey = ''CACHEDACCESSKEY'', SecretKey = ''CACHEDSECRETKEY'',
     RegionName = ''us-east-1'', SessionToken = ''CACHEDTOKEN''\<rparr>"

definition test_metadata_service :: awsMetadataCredentialService where
  "test_metadata_service =
     \<lparr>md_RoleName = ''my_iam_role'', md_RegionName = ''us-east-1'', md_creds = cached_creds,
      md_expiration = 0, md_credServicePath = ''http://test/creds/'',
      md_tokenPath = ''http://test/token''\<rparr>"

definition test_webIdentity_service :: awsWebIdentityCredentialService where
  "test_webIdentity_service =
     \<lparr>wi_RoleArn = ''role:arn'', wi_WebIdentityTokenFile = ''good_token_file'',
      wi_RegionName = ''us-west-1'', wi_SessionName = [], wi_stsURL = ''http://test/sts'',
      wi_creds = cached_creds, wi_expiration = 0\<rparr>"

text \<open>A role the server does not know (404), a role whose payload has the code
  \<^verbatim>\<open>Failure\<close>, a service in an ECS task (no role name, no test override), an STS endpoint
  that answers 401, and services whose cache has 300 minutes left.\<close>

definition failing_metadata_service :: awsMetadataCredentialService where
  "failing_metadata_service = test_metadata_service\<lparr>md_RoleName := ''not_my_iam_role''\<rparr>"

definition rejected_metadata_service :: awsMetadataCredentialService where
  "rejected_metadata_service = test_metadata_service\<lparr>md_RoleName := ''failing_role''\<rparr>"

definition ecs_metadata_service :: awsMetadataCredentialService where
  "ecs_metadata_service =
     \<lparr>md_RoleName = [], md_RegionName = ''us-east-1'', md_creds = zero_Credentials,
      md_expiration = 0, md_credServicePath = [], md_tokenPath = []\<rparr>"

definition ecs_world :: world where
  "ecs_world = test_world\<lparr>env := [ecsRelativePathEnvVar \<mapsto> ''/v2/credentials/task'']\<rparr>"

definition failing_webIdentity_service :: awsWebIdentityCredentialService where
  "failing_webIdentity_service =
     test_webIdentity_service\<lparr>wi_stsURL := ''http://test/sts/unauthorized''\<rparr>"

definition fresh_metadata_service :: awsMetadataCredentialService where
  "fresh_metadata_service = test_metadata_service\<lparr>md_expiration := 300 * Minute\<rparr>"

definition fresh_webIdentity_service :: awsWebIdentityCredentialService where
  "fresh_webIdentity_service = test_webIdentity_service\<lparr>wi_expiration := 300 * Minute\<rparr>"

definition test_env_creds :: Credentials where
  "test_env_creds = \<lparr>AccessKey = ''MYAWSACCESSKEYGOESHERE'', SecretKey = ''MYAWSSECRETACCESSKEYGOESHERE'',
     RegionName = ''us-east-1'', SessionToken = []\<rparr>"

definition test_request :: request where
  "test_request =
     \<lparr>Method = ''POST'', URL = ''https://myrestapi.execute-api.us-east-1.amazonaws.com/prod/logs'',
      Header = Some [''Accept'' \<mapsto> [''text/plain'', ''text/html''],
                     ''Authorization'' \<mapsto> [''Auth header will be overwritten'']],
      Body = Some (NewReader ''payload: 42'')\<rparr>"

section \<open>Properties\<close>

subsection \<open>Helper lemmas\<close>

lemmas test_defs = test_world_def test_externals_def test_transport_def test_metadata_service_def
  test_webIdentity_service_def test_payload_def test_sts_payload_def cached_creds_def

lemmas md_defs = awsMetadataCredentialService_refreshFromService_def
  awsMetadataCredentialService_fetchPayload_def awsMetadataCredentialService_credentials_def
  urlForMetadataService_def tokenRequest_def NewRequest_def req_Header_Set_def Header_Set_def
  doMetaDataRequestWithClient_def isECS_def LookupEnv_def Getenv_def

lemmas wi_defs = awsWebIdentityCredentialService_refreshFromService_def
  awsWebIdentityCredentialService_credentials_def stsPath_def NewRequest_def NewReader_def
  req_Header_Add_def Header_Add_def Header_Values_def doMetaDataRequestWithClient_def

lemmas fixture_defs = failing_metadata_service_def rejected_metadata_service_def ecs_metadata_service_def
  ecs_world_def failing_webIdentity_service_def fresh_metadata_service_def fresh_webIdentity_service_def

lemmas env_var_defs = accessKeyEnvVar_def secretKeyEnvVar_def awsRegionEnvVar_def sessionTokenEnvVar_def
  securityTokenEnvVar_def awsRoleArnEnvVar_def awsWebIdentityTokenFileEnvVar_def ecsRelativePathEnvVar_def

lemma doMetaDataRequestWithClient_world:
  "doMetaDataRequestWithClient req desc w = (r, w') \<Longrightarrow> w' = w\<lparr>sent := sent w @ [req]\<rparr>"
  by (auto simp: doMetaDataRequestWithClient_def Let_def split: http_result.splits if_splits sum.splits)

lemma fetchPayload_sends:
  assumes "awsMetadataCredentialService_fetchPayload L cs w = (Inr p, w')"
  shows "length (sent w) < length (sent w')"
  using assms
  unfolding awsMetadataCredentialService_fetchPayload_def
  by (auto split: sum.splits if_splits prod.splits dest!: doMetaDataRequestWithClient_world)

lemma md_refresh_error_keeps:
  assumes "awsMetadataCredentialService_refreshFromService L cs w = (Some err, cs', w')"
  shows "cs' = cs"
  using assms
  unfolding awsMetadataCredentialService_refreshFromService_def
  by (auto split: sum.splits if_splits prod.splits)

lemma md_skip_iff:
  "(awsMetadataCredentialService_refreshFromService L cs w = (None, cs, w)) =
   (clock w + Minute * 5 < md_expiration cs)"
proof
  assume r: "awsMetadataCredentialService_refreshFromService L cs w = (None, cs, w)"
  show "clock w + Minute * 5 < md_expiration cs"
  proof (rule ccontr)
    assume n: "\<not> clock w + Minute * 5 < md_expiration cs"
    from r n obtain p where "awsMetadataCredentialService_fetchPayload L cs w = (Inr p, w)"
      unfolding awsMetadataCredentialService_refreshFromService_def
      by (auto split: sum.splits if_splits prod.splits)
    from fetchPayload_sends[OF this] show False by simp
  qed
next
  assume "clock w + Minute * 5 < md_expiration cs"
  then show "awsMetadataCredentialService_refreshFromService L cs w = (None, cs, w)"
    by (simp add: awsMetadataCredentialService_refreshFromService_def)
qed

lemma wi_refresh_error_keeps:
  assumes "awsWebIdentityCredentialService_refreshFromService L cs w = Returns (Some err, cs', w')"
  shows "cs' = cs"
  using assms
  unfolding awsWebIdentityCredentialService_refreshFromService_def
  by (auto simp: Let_def split: sum.splits if_splits prod.splits option.splits)

lemma wi_refresh_sends:
  assumes "awsWebIdentityCredentialService_refreshFromService L cs w = Returns (None, cs', w')"
    and "\<not> clock w + Minute * 5 < wi_expiration cs"
  shows "length (sent w) < length (sent w')"
  using assms
  unfolding awsWebIdentityCredentialService_refreshFromService_def
  by (auto simp: Let_def split: sum.splits if_splits prod.splits option.splits
           dest!: doMetaDataRequestWithClient_world)

lemma wi_skip_iff:
  "(awsWebIdentityCredentialService_refreshFromService L cs w = Returns (None, cs, w)) =
   (clock w + Minute * 5 < wi_expiration cs)"
proof
  assume r: "awsWebIdentityCredentialService_refreshFromService L cs w = Returns (None, cs, w)"
  show "clock w + Minute * 5 < wi_expiration cs"
  proof (rule ccontr)
    assume n: "\<not> clock w + Minute * 5 < wi_expiration cs"
    from wi_refresh_sends[OF r n] show False by simp
  qed
next
  assume "clock w + Minute * 5 < wi_expiration cs"
  then show "awsWebIdentityCredentialService_refreshFromService L cs w = Returns (None, cs, w)"
    by (simp add: awsWebIdentityCredentialService_refreshFromService_def)
qed

lemma fold_Header_Add:
  "fold (\<lambda>(k, v) h. Header_Add L h k v) kvs h key =
     (if map snd (filter (\<lambda>(k, v). CanonicalMIMEHeaderKey L k = key) kvs) = [] then h key
      else Some ((case h key of None \<Rightarrow> [] | Some vs \<Rightarrow> vs) @
                 map snd (filter (\<lambda>(k, v). CanonicalMIMEHeaderKey L k = key) kvs)))"
  by (induction kvs arbitrary: h)
     (auto simp: Header_Add_def Header_Values_def split: option.splits)

lemma environment_credService_test:
  "environment_credService test_env_world = Returns ((test_env_creds, None), test_env_world)"
  by (simp add: environment_credService_def awsEnvironmentCredentialService_credentials_def
      test_env_world_def test_world_def test_env_creds_def zero_Credentials_def Getenv_def env_var_defs)

lemma metadata_credService_failing:
  "\<exists>s'. metadata_credService test_externals (failing_metadata_service, test_world) =
     Returns ((cached_creds, Some ''metadata HTTP request returned unexpected status: 404 Not Found''), s')"
  by (simp add: metadata_credService_def fixture_defs test_defs md_defs env_var_defs Minute_def)

lemma test_request_body:
  "Body test_request = Some (NewReader ''payload: 42'')"
  "read_error (NewReader ''payload: 42'') = None"
  "pending (NewReader ''payload: 42'') = ''payload: 42''"
  by (simp_all add: test_request_def NewReader_def)

subsection \<open>The environment credential service\<close>

text \<open>
  Claim C7, as the code has it. The service requires three variables, in the order
  \<^verbatim>\<open>AWS_ACCESS_KEY_ID\<close>, \<^verbatim>\<open>AWS_SECRET_ACCESS_KEY\<close>, \<^verbatim>\<open>AWS_REGION\<close>: when one of them is
  unset or empty, \<^verbatim>\<open>credentials()\<close> fails with the error that names the first such
  variable. When the three are set it returns, without error, credentials equal to
  their current values; nothing is cached, the result being a function of the
  environment at the time of the call. The session token is the value of
  \<^verbatim>\<open>AWS_SESSION_TOKEN\<close>, and that of \<^verbatim>\<open>AWS_SECURITY_TOKEN\<close> when the former is unset or
  empty; neither is required.
\<close>

theorem environment_credentials_required:
  "(Getenv w accessKeyEnvVar = [] \<longrightarrow>
      snd (awsEnvironmentCredentialService_credentials w) = Some ''no AWS_ACCESS_KEY_ID set in environment'') \<and>
   (Getenv w accessKeyEnvVar \<noteq> [] \<and> Getenv w secretKeyEnvVar = [] \<longrightarrow>
      snd (awsEnvironmentCredentialService_credentials w) = Some ''no AWS_SECRET_ACCESS_KEY set in environment'') \<and>
   (Getenv w accessKeyEnvVar \<noteq> [] \<and> Getenv w secretKeyEnvVar \<noteq> [] \<and> Getenv w awsRegionEnvVar = [] \<longrightarrow>
      snd (awsEnvironmentCredentialService_credentials w) = Some ''no AWS_REGION set in environment'') \<and>
   (Getenv w accessKeyEnvVar \<noteq> [] \<and> Getenv w secretKeyEnvVar \<noteq> [] \<and> Getenv w awsRegionEnvVar \<noteq> [] \<longrightarrow>
      awsEnvironmentCredentialService_credentials w =
        (\<lparr>AccessKey = Getenv w accessKeyEnvVar, SecretKey = Getenv w secretKeyEnvVar,
          RegionName = Getenv w awsRegionEnvVar,
          SessionToken = (if Getenv w sessionTokenEnvVar \<noteq> [] then Getenv w sessionTokenEnvVar
                          else Getenv w securityTokenEnvVar)\<rparr>, None))"
  by (simp add: awsEnvironmentCredentialService_credentials_def zero_Credentials_def Let_def
        accessKeyEnvVar_def secretKeyEnvVar_def awsRegionEnvVar_def)

text \<open>The theorem at three environments: nothing set; the region missing; the three
  variables and the legacy security token set.\<close>

theorem environment_credentials_required_witness:
  "Getenv test_world accessKeyEnvVar = [] \<and>
   snd (awsEnvironmentCredentialService_credentials test_world) = Some ''no AWS_ACCESS_KEY_ID set in environment'' \<and>
   Getenv (test_env_world\<lparr>env := (env test_env_world)(awsRegionEnvVar := None)\<rparr>) accessKeyEnvVar \<noteq> [] \<and>
   Getenv (test_env_world\<lparr>env := (env test_env_world)(awsRegionEnvVar := None)\<rparr>) secretKeyEnvVar \<noteq> [] \<and>
   Getenv (test_env_world\<lparr>env := (env test_env_world)(awsRegionEnvVar := None)\<rparr>) awsRegionEnvVar = [] \<and>
   snd (awsEnvironmentCredentialService_credentials
          (test_env_world\<lparr>env := (env test_env_world)(awsRegionEnvVar := None)\<rparr>)) =
     Some ''no AWS_REGION set in environment'' \<and>
   Getenv (test_env_world\<lparr>env := (env test_env_world)(securityTokenEnvVar \<mapsto> ''MYSECURITYTOKENGOESHERE'')\<rparr>)
     sessionTokenEnvVar = [] \<and>
   awsEnvironmentCredentialService_credentials
     (test_env_world\<lparr>env := (env test_env_world)(securityTokenEnvVar \<mapsto> ''MYSECURITYTOKENGOESHERE'')\<rparr>) =
     (\<lparr>AccessKey = ''MYAWSACCESSKEYGOESHERE'', SecretKey = ''MYAWSSECRETACCESSKEYGOESHERE'',
       RegionName = ''us-east-1'', SessionToken = ''MYSECURITYTOKENGOESHERE''\<rparr>, None)"
  using environment_credentials_required [of test_world]
    environment_credentials_required [of "test_env_world\<lparr>env := (env test_env_world)(awsRegionEnvVar := None)\<rparr>"]
    environment_credentials_required
      [of "test_env_world\<lparr>env := (env test_env_world)(securityTokenEnvVar \<mapsto> ''MYSECURITYTOKENGOESHERE'')\<rparr>"]
  by (simp add: test_env_world_def test_world_def Getenv_def env_var_defs)

text \<open>
  Claim C7 as stated speaks of four required variables. In the environment that sets
  exactly the three variables above, and so neither token variable, the call succeeds
  with an empty session token: no fourth variable is required.
\<close>

theorem environment_session_token_not_required:
  "dom (env test_env_world) = {accessKeyEnvVar, secretKeyEnvVar, awsRegionEnvVar} \<and>
   awsEnvironmentCredentialService_credentials test_env_world =
     (\<lparr>AccessKey = ''MYAWSACCESSKEYGOESHERE'', SecretKey = ''MYAWSSECRETACCESSKEYGOESHERE'',
       RegionName = ''us-east-1'', SessionToken = []\<rparr>, None)"
  by (auto simp: test_env_world_def test_world_def awsEnvironmentCredentialService_credentials_def
      zero_Credentials_def Getenv_def env_var_defs)

subsection \<open>The web identity service: populateFromEnv\<close>

text \<open>
  Claim C10. \<^verbatim>\<open>populateFromEnv\<close> is not atomic on failure. It first overwrites the role
  ARN with the value of \<^verbatim>\<open>AWS_ROLE_ARN\<close> and only then checks it: when the variable is
  unset the call returns the error and the role ARN is already empty, whatever it held
  before. Past that check it does the same to the token file with
  \<^verbatim>\<open>AWS_WEB_IDENTITY_TOKEN_FILE\<close>. The region alone is kept when it is already non-empty.
\<close>

theorem populateFromEnv_not_atomic:
 "(Getenv w awsRoleArnEnvVar = [] \<longrightarrow>
     populateFromEnv cs w = (Some ''no AWS_ROLE_ARN set in environment'', cs\<lparr>wi_RoleArn := []\<rparr>)) \<and>
  (Getenv w awsRoleArnEnvVar \<noteq> [] \<and> Getenv w awsWebIdentityTokenFileEnvVar = [] \<longrightarrow>
     populateFromEnv cs w = (Some ''no AWS_WEB_IDENTITY_TOKEN_FILE set in environment'',
        cs\<lparr>wi_RoleArn := Getenv w awsRoleArnEnvVar, wi_WebIdentityTokenFile := []\<rparr>)) \<and>
  wi_RoleArn (snd (populateFromEnv cs w)) = Getenv w awsRoleArnEnvVar \<and>
  (Getenv w awsRoleArnEnvVar \<noteq> [] \<longrightarrow>
     wi_WebIdentityTokenFile (snd (populateFromEnv cs w)) = Getenv w awsWebIdentityTokenFileEnvVar) \<and>
  (wi_RegionName cs \<noteq> [] \<longrightarrow> wi_RegionName (snd (populateFromEnv cs w)) = wi_RegionName cs)"
  by (simp add: populateFromEnv_def Let_def awsRoleArnEnvVar_def awsWebIdentityTokenFileEnvVar_def)

text \<open>The theorem on a service that holds a role ARN, a token file and a region: with
  an empty environment, and with an environment that sets the role ARN only.\<close>

theorem populateFromEnv_not_atomic_witness:
  "Getenv test_world awsRoleArnEnvVar = [] \<and> wi_RoleArn test_webIdentity_service = ''role:arn'' \<and>
   wi_RegionName test_webIdentity_service \<noteq> [] \<and>
   populateFromEnv test_webIdentity_service test_world =
     (Some ''no AWS_ROLE_ARN set in environment'', test_webIdentity_service\<lparr>wi_RoleArn := []\<rparr>) \<and>
   wi_RegionName (snd (populateFromEnv test_webIdentity_service test_world)) = ''us-west-1'' \<and>
   Getenv (test_world\<lparr>env := [awsRoleArnEnvVar \<mapsto> ''new:arn'']\<rparr>) awsRoleArnEnvVar \<noteq> [] \<and>
   Getenv (test_world\<lparr>env := [awsRoleArnEnvVar \<mapsto> ''new:arn'']\<rparr>) awsWebIdentityTokenFileEnvVar = [] \<and>
   populateFromEnv test_webIdentity_service (test_world\<lparr>env := [awsRoleArnEnvVar \<mapsto> ''new:arn'']\<rparr>) =
     (Some ''no AWS_WEB_IDENTITY_TOKEN_FILE set in environment'',
      test_webIdentity_service\<lparr>wi_RoleArn := ''new:arn'', wi_WebIdentityTokenFile := []\<rparr>)"
  using populateFromEnv_not_atomic [of test_world test_webIdentity_service]
    populateFromEnv_not_atomic [of "test_world\<lparr>env := [awsRoleArnEnvVar \<mapsto> ''new:arn'']\<rparr>"
      test_webIdentity_service]
  by (simp add: test_world_def test_webIdentity_service_def Getenv_def env_var_defs)

subsection \<open>The caching services: metadata and web identity\<close>

text \<open>
  Claim C1 (stale on error). For the metadata service and for the web identity service:
  when \<^verbatim>\<open>refreshFromService\<close> returns an error, the service is as it was before the call,
  so the cached credentials and the cached expiration are unchanged, and
  \<^verbatim>\<open>credentials()\<close> returns the previously cached credentials together with that error.
  When nothing was cached before (the zero value), the credentials returned with the
  error are the zero value. (A refresh of the web identity service that panics, on an
  STS URL that does not parse, returns nothing and is not a case of this claim.)
\<close>

theorem stale_on_error:
  "(awsMetadataCredentialService_refreshFromService L cs w = (Some err, cs', w') \<longrightarrow>
      cs' = cs \<and> md_creds cs' = md_creds cs \<and> md_expiration cs' = md_expiration cs \<and>
      awsMetadataCredentialService_credentials L cs w = ((md_creds cs, Some err), cs, w') \<and>
      (md_creds cs = zero_Credentials \<longrightarrow>
         fst (awsMetadataCredentialService_credentials L cs w) = (zero_Credentials, Some err))) \<and>
   (awsWebIdentityCredentialService_refreshFromService L ws w = Returns (Some err, ws', w') \<longrightarrow>
      ws' = ws \<and> wi_creds ws' = wi_creds ws \<and> wi_expiration ws' = wi_expiration ws \<and>
      awsWebIdentityCredentialService_credentials L ws w = Returns ((wi_creds ws, Some err), ws, w') \<and>
      (wi_creds ws = zero_Credentials \<longrightarrow>
         awsWebIdentityCredentialService_credentials L ws w =
           Returns ((zero_Credentials, Some err), ws, w')))"
proof (intro conjI impI)
  assume r: "awsMetadataCredentialService_refreshFromService L cs w = (Some err, cs', w')"
  from md_refresh_error_keeps[OF r] show eq: "cs' = cs" .
  then show "md_creds cs' = md_creds cs" "md_expiration cs' = md_expiration cs" by simp_all
  from r eq show c: "awsMetadataCredentialService_credentials L cs w = ((md_creds cs, Some err), cs, w')"
    by (simp add: awsMetadataCredentialService_credentials_def)
  assume "md_creds cs = zero_Credentials"
  with c show "fst (awsMetadataCredentialService_credentials L cs w) = (zero_Credentials, Some err)"
    by simp
next
  assume r: "awsWebIdentityCredentialService_refreshFromService L ws w = Returns (Some err, ws', w')"
  from wi_refresh_error_keeps[OF r] show eq: "ws' = ws" .
  then show "wi_creds ws' = wi_creds ws" "wi_expiration ws' = wi_expiration ws" by simp_all
  from r eq show c: "awsWebIdentityCredentialService_credentials L ws w =
      Returns ((wi_creds ws, Some err), ws, w')"
    by (simp add: awsWebIdentityCredentialService_credentials_def)
  assume "wi_creds ws = zero_Credentials"
  with c show "awsWebIdentityCredentialService_credentials L ws w =
      Returns ((zero_Credentials, Some err), ws, w')"
    by simp
qed

text \<open>The theorem on services with cached credentials whose refresh fails: the metadata
  server answers 404 for the role, the STS server answers 401.\<close>

theorem stale_on_error_witness:
  "fst (awsMetadataCredentialService_refreshFromService test_externals failing_metadata_service test_world) =
     Some ''metadata HTTP request returned unexpected status: 404 Not Found'' \<and>
   md_creds failing_metadata_service = cached_creds \<and>
   fst (awsMetadataCredentialService_credentials test_externals failing_metadata_service test_world) =
     (cached_creds, Some ''metadata HTTP request returned unexpected status: 404 Not Found'') \<and>
   fst (snd (awsMetadataCredentialService_credentials test_externals failing_metadata_service test_world)) =
     failing_metadata_service \<and>
   (\<exists>w'. awsWebIdentityCredentialService_refreshFromService test_externals failing_webIdentity_service
            test_world =
          Returns (Some ''STS HTTP request returned unexpected status: 401 Unauthorized'',
                   failing_webIdentity_service, w') \<and>
        awsWebIdentityCredentialService_credentials test_externals failing_webIdentity_service test_world =
          Returns ((cached_creds, Some ''STS HTTP request returned unexpected status: 401 Unauthorized''),
                   failing_webIdentity_service, w'))"
proof -
  let ?r = "awsMetadataCredentialService_refreshFromService test_externals failing_metadata_service test_world"
  let ?e = "''metadata HTTP request returned unexpected status: 404 Not Found''"
  let ?e2 = "''STS HTTP request returned unexpected status: 401 Unauthorized''"
  have c: "md_creds failing_metadata_service = cached_creds"
    by (simp add: failing_metadata_service_def test_metadata_service_def)
  have c2: "wi_creds failing_webIdentity_service = cached_creds"
    by (simp add: failing_webIdentity_service_def test_webIdentity_service_def)
  have h: "?r = (Some ?e, fst (snd ?r), snd (snd ?r))"
    by (simp add: failing_metadata_service_def test_defs md_defs env_var_defs Minute_def)
  have 1: "fst ?r = Some ?e" using h by (metis fst_conv)
  from stale_on_error [where L = test_externals and cs = failing_metadata_service and w = test_world
      and err = ?e and cs' = "fst (snd ?r)" and w' = "snd (snd ?r)"] h
  have m: "awsMetadataCredentialService_credentials test_externals failing_metadata_service test_world =
      ((md_creds failing_metadata_service, Some ?e), failing_metadata_service, snd (snd ?r))"
    by blast
  obtain w' where h2: "awsWebIdentityCredentialService_refreshFromService test_externals
      failing_webIdentity_service test_world = Returns (Some ?e2, failing_webIdentity_service, w')"
    by (simp add: failing_webIdentity_service_def test_defs wi_defs Minute_def)
  from stale_on_error [where L = test_externals and ws = failing_webIdentity_service and w = test_world
      and err = ?e2 and ws' = failing_webIdentity_service and w' = w'] h2
  have n: "awsWebIdentityCredentialService_credentials test_externals failing_webIdentity_service test_world =
      Returns ((wi_creds failing_webIdentity_service, Some ?e2), failing_webIdentity_service, w')"
    by blast
  show ?thesis using 1 c m n h2 c2 by auto
qed

text \<open>
  Claim C3 (cache validity). For both caching services, \<^verbatim>\<open>credentials()\<close> returns the
  cached credentials without error and leaves the service and the world as they were,
  exactly when the clock plus five minutes is strictly before the cached expiration.
  In that case no request is sent (the list \<open>sent\<close> is unchanged), whatever the
  transport would answer now: the check comes before any network call.
\<close>

theorem fresh_cache_skips_refresh:
  "((awsMetadataCredentialService_credentials L cs w = ((md_creds cs, None), cs, w)) =
      (clock w + Minute * 5 < md_expiration cs)) \<and>
   (clock w + Minute * 5 < md_expiration cs \<longrightarrow>
      fst (awsMetadataCredentialService_credentials L cs w) = (md_creds cs, None) \<and>
      sent (snd (snd (awsMetadataCredentialService_credentials L cs w))) = sent w) \<and>
   ((awsWebIdentityCredentialService_credentials L ws w = Returns ((wi_creds ws, None), ws, w)) =
      (clock w + Minute * 5 < wi_expiration ws)) \<and>
   (clock w + Minute * 5 < wi_expiration ws \<longrightarrow>
      (\<exists>w'. awsWebIdentityCredentialService_credentials L ws w = Returns ((wi_creds ws, None), ws, w') \<and>
            sent w' = sent w))"
proof -
  have m: "(awsMetadataCredentialService_credentials L cs w = ((md_creds cs, None), cs, w)) =
      (awsMetadataCredentialService_refreshFromService L cs w = (None, cs, w))"
    by (auto simp: awsMetadataCredentialService_credentials_def split: prod.splits option.splits)
  have n: "(awsWebIdentityCredentialService_credentials L ws w = Returns ((wi_creds ws, None), ws, w)) =
      (awsWebIdentityCredentialService_refreshFromService L ws w = Returns (None, ws, w))"
    by (auto simp: awsWebIdentityCredentialService_credentials_def
        split: prod.splits option.splits outcome.splits)
  show ?thesis
    using m n md_skip_iff [of L cs w] wi_skip_iff [of L ws w] by auto
qed

text \<open>The theorem on services whose cache has 300 minutes left, and on a service whose
  cache expires in exactly five minutes, which is not fresh.\<close>

theorem fresh_cache_skips_refresh_witness:
  "clock test_world + Minute * 5 < md_expiration fresh_metadata_service \<and>
   awsMetadataCredentialService_credentials test_externals fresh_metadata_service test_world =
     ((cached_creds, None), fresh_metadata_service, test_world) \<and>
   sent (snd (snd (awsMetadataCredentialService_credentials test_externals fresh_metadata_service
     test_world))) = [] \<and>
   clock test_world + Minute * 5 < wi_expiration fresh_webIdentity_service \<and>
   awsWebIdentityCredentialService_credentials test_externals fresh_webIdentity_service test_world =
     Returns ((cached_creds, None), fresh_webIdentity_service, test_world) \<and>
   \<not> clock test_world + Minute * 5 < md_expiration (test_metadata_service\<lparr>md_expiration := 5 * Minute\<rparr>) \<and>
   awsMetadataCredentialService_credentials test_externals
       (test_metadata_service\<lparr>md_expiration := 5 * Minute\<rparr>) test_world \<noteq>
     ((cached_creds, None), test_metadata_service\<lparr>md_expiration := 5 * Minute\<rparr>, test_world)"
proof -
  have c: "md_creds fresh_metadata_service = cached_creds"
      "wi_creds fresh_webIdentity_service = cached_creds"
      "md_creds (test_metadata_service\<lparr>md_expiration := 5 * Minute\<rparr>) = cached_creds"
    by (simp_all add: fixture_defs test_metadata_service_def test_webIdentity_service_def)
  have f: "clock test_world + Minute * 5 < md_expiration fresh_metadata_service"
      "clock test_world + Minute * 5 < wi_expiration fresh_webIdentity_service"
      "\<not> clock test_world + Minute * 5 < md_expiration (test_metadata_service\<lparr>md_expiration := 5 * Minute\<rparr>)"
      "sent test_world = []"
    by (simp_all add: fixture_defs test_metadata_service_def test_webIdentity_service_def test_world_def
        Minute_def)
  show ?thesis
    using fresh_cache_skips_refresh [of test_externals fresh_metadata_service test_world
        fresh_webIdentity_service]
      fresh_cache_skips_refresh [of test_externals "test_metadata_service\<lparr>md_expiration := 5 * Minute\<rparr>"
        test_world fresh_webIdentity_service] c f
    by simp
qed

text \<open>
  Claim C6, as the code has it. \<^verbatim>\<open>refreshFromService\<close> takes no timestamp: both caching
  services read the ambient clock (\<^verbatim>\<open>time.Now()\<close>) inside the freshness check. Whether a
  call skips the refresh is decided by that clock reading and the cached expiration
  alone: two calls that agree on both make the same decision, whatever the rest of the
  service, the environment, the network and the library functions are.
\<close>

theorem refresh_decision_reads_clock:
  "(clock w = clock w' \<and> md_expiration cs = md_expiration cs' \<longrightarrow>
      (awsMetadataCredentialService_refreshFromService L cs w = (None, cs, w)) =
      (awsMetadataCredentialService_refreshFromService L' cs' w' = (None, cs', w'))) \<and>
   (clock w = clock w' \<and> wi_expiration ws = wi_expiration ws' \<longrightarrow>
      (awsWebIdentityCredentialService_refreshFromService L ws w = Returns (None, ws, w)) =
      (awsWebIdentityCredentialService_refreshFromService L' ws' w' = Returns (None, ws', w')))"
  by (simp add: md_skip_iff wi_skip_iff)

text \<open>The theorem on two services that agree on the expiration, in two worlds that agree
  on the clock and differ in the environment.\<close>

theorem refresh_decision_reads_clock_witness:
  "clock test_world = clock ecs_world \<and>
   md_expiration fresh_metadata_service =
     md_expiration (fresh_metadata_service\<lparr>md_RoleName := ''another_role''\<rparr>) \<and>
   awsMetadataCredentialService_refreshFromService test_externals fresh_metadata_service test_world =
     (None, fresh_metadata_service, test_world) \<and>
   awsMetadataCredentialService_refreshFromService test_externals
       (fresh_metadata_service\<lparr>md_RoleName := ''another_role''\<rparr>) ecs_world =
     (None, fresh_metadata_service\<lparr>md_RoleName := ''another_role''\<rparr>, ecs_world) \<and>
   wi_expiration fresh_webIdentity_service =
     wi_expiration (fresh_webIdentity_service\<lparr>wi_RoleArn := ''another:arn''\<rparr>) \<and>
   awsWebIdentityCredentialService_refreshFromService test_externals fresh_webIdentity_service
       test_world =
     Returns (None, fresh_webIdentity_service, test_world) \<and>
   awsWebIdentityCredentialService_refreshFromService test_externals
       (fresh_webIdentity_service\<lparr>wi_RoleArn := ''another:arn''\<rparr>) ecs_world =
     Returns (None, fresh_webIdentity_service\<lparr>wi_RoleArn := ''another:arn''\<rparr>, ecs_world)"
proof -
  have a: "awsMetadataCredentialService_refreshFromService test_externals fresh_metadata_service
      test_world = (None, fresh_metadata_service, test_world)"
    by (simp add: awsMetadataCredentialService_refreshFromService_def fixture_defs
        test_metadata_service_def test_world_def Minute_def)
  have b: "awsWebIdentityCredentialService_refreshFromService test_externals fresh_webIdentity_service
      test_world = Returns (None, fresh_webIdentity_service, test_world)"
    by (simp add: awsWebIdentityCredentialService_refreshFromService_def fixture_defs
        test_webIdentity_service_def test_world_def Minute_def)
  have c: "clock test_world = clock ecs_world" by (simp add: ecs_world_def)
  show ?thesis
    using refresh_decision_reads_clock [of test_world ecs_world fresh_metadata_service
        "fresh_metadata_service\<lparr>md_RoleName := ''another_role''\<rparr>" test_externals test_externals
        fresh_webIdentity_service "fresh_webIdentity_service\<lparr>wi_RoleArn := ''another:arn''\<rparr>"]
      a b c
    by simp
qed

text \<open>
  Claim C6 as stated fails: the same service value, with the same library functions,
  skips the refresh in a world whose clock reads 0 and refreshes (two requests are
  sent) in a world that differs only in the clock.
\<close>

theorem refresh_decision_varies_with_clock:
  "awsMetadataCredentialService_refreshFromService test_externals fresh_metadata_service
       (test_world\<lparr>clock := 0\<rparr>) =
     (None, fresh_metadata_service, test_world\<lparr>clock := 0\<rparr>) \<and>
   awsMetadataCredentialService_refreshFromService test_externals fresh_metadata_service
       (test_world\<lparr>clock := 300 * Minute\<rparr>) \<noteq>
     (None, fresh_metadata_service, test_world\<lparr>clock := 300 * Minute\<rparr>) \<and>
   length (sent (snd (snd (awsMetadataCredentialService_refreshFromService test_externals
       fresh_metadata_service (test_world\<lparr>clock := 300 * Minute\<rparr>))))) = 2 \<and>
   awsWebIdentityCredentialService_refreshFromService test_externals fresh_webIdentity_service
       (test_world\<lparr>clock := 0\<rparr>) =
     Returns (None, fresh_webIdentity_service, test_world\<lparr>clock := 0\<rparr>) \<and>
   awsWebIdentityCredentialService_refreshFromService test_externals fresh_webIdentity_service
       (test_world\<lparr>clock := 300 * Minute\<rparr>) \<noteq>
     Returns (None, fresh_webIdentity_service, test_world\<lparr>clock := 300 * Minute\<rparr>)"
proof -
  have 1: "length (sent (snd (snd (awsMetadataCredentialService_refreshFromService test_externals
       fresh_metadata_service (test_world\<lparr>clock := 300 * Minute\<rparr>))))) = 2"
    by (simp add: fixture_defs test_defs md_defs env_var_defs Minute_def)
  show ?thesis
    using 1 by (simp add: md_skip_iff wi_skip_iff fixture_defs test_metadata_service_def
        test_webIdentity_service_def test_world_def Minute_def)
qed

text \<open>
  Claim C8. When the cache is not fresh and the metadata request has yielded a parsed
  payload: with a role name configured (EC2), a \<^verbatim>\<open>Code\<close> other than \<^verbatim>\<open>Success\<close> (an
  absent one is the empty string) makes the refresh fail with an error that ends with
  the code, the cache untouched; without a role name (ECS) the payload is accepted
  whatever its \<^verbatim>\<open>Code\<close>, and the cache is replaced by the payload's values and the
  configured region.
\<close>

theorem metadata_code_validation:
  assumes "\<not> clock w + Minute * 5 < md_expiration cs"
    and "awsMetadataCredentialService_fetchPayload L cs w = (Inr payload, w')"
  shows "(md_RoleName cs \<noteq> [] \<and> Code payload \<noteq> ''Success'' \<longrightarrow>
            awsMetadataCredentialService_refreshFromService L cs w =
              (Some (''metadata service query did not succeed: '' @ Code payload), cs, w')) \<and>
         (md_RoleName cs = [] \<or> Code payload = ''Success'' \<longrightarrow>
            awsMetadataCredentialService_refreshFromService L cs w =
              (None,
               cs\<lparr>md_expiration := Expiration payload,
                  md_creds := \<lparr>AccessKey = AccessKeyID payload, SecretKey = SecretAccessKey payload,
                                RegionName = md_RegionName cs, SessionToken = Token payload\<rparr>\<rparr>,
               w'))"
  using assms by (simp add: awsMetadataCredentialService_refreshFromService_def)

text \<open>The theorem on a role whose payload has the code \<^verbatim>\<open>Failure\<close>, and on an ECS task
  whose payload has no code.\<close>

theorem metadata_code_validation_witness:
  "\<not> clock test_world + Minute * 5 < md_expiration rejected_metadata_service \<and>
   fst (awsMetadataCredentialService_fetchPayload test_externals rejected_metadata_service test_world) =
     Inr (test_payload\<lparr>Code := ''Failure''\<rparr>) \<and>
   md_RoleName rejected_metadata_service = ''failing_role'' \<and>
   fst (awsMetadataCredentialService_refreshFromService test_externals rejected_metadata_service
     test_world) = Some ''metadata service query did not succeed: Failure'' \<and>
   fst (snd (awsMetadataCredentialService_refreshFromService test_externals rejected_metadata_service
     test_world)) = rejected_metadata_service \<and>
   \<not> clock ecs_world + Minute * 5 < md_expiration ecs_metadata_service \<and>
   fst (awsMetadataCredentialService_fetchPayload test_externals ecs_metadata_service ecs_world) =
     Inr (test_payload\<lparr>Code := []\<rparr>) \<and>
   md_RoleName ecs_metadata_service = [] \<and>
   fst (awsMetadataCredentialService_refreshFromService test_externals ecs_metadata_service ecs_world) =
     None \<and>
   fst (snd (awsMetadataCredentialService_refreshFromService test_externals ecs_metadata_service
     ecs_world)) =
     ecs_metadata_service\<lparr>md_expiration := 300 * Minute,
       md_creds := \<lparr>AccessKey = ''MYAWSACCESSKEYGOESHERE'', SecretKey = ''MYAWSSECRETACCESSKEYGOESHERE'',
                     RegionName = ''us-east-1'', SessionToken = ''MYAWSSECURITYTOKENGOESHERE''\<rparr>\<rparr>"
proof -
  let ?f1 = "awsMetadataCredentialService_fetchPayload test_externals rejected_metadata_service test_world"
  let ?f2 = "awsMetadataCredentialService_fetchPayload test_externals ecs_metadata_service ecs_world"
  have n1: "\<not> clock test_world + Minute * 5 < md_expiration rejected_metadata_service"
    and n2: "\<not> clock ecs_world + Minute * 5 < md_expiration ecs_metadata_service"
    and r: "md_RoleName rejected_metadata_service = ''failing_role''"
      "md_RoleName ecs_metadata_service = []" "md_RegionName ecs_metadata_service = ''us-east-1''"
    by (simp_all add: fixture_defs test_metadata_service_def test_world_def Minute_def)
  have f1: "fst ?f1 = Inr (test_payload\<lparr>Code := ''Failure''\<rparr>)"
    by (simp add: fixture_defs test_defs md_defs env_var_defs)
  have f2: "fst ?f2 = Inr (test_payload\<lparr>Code := []\<rparr>)"
    by (simp add: fixture_defs test_defs md_defs env_var_defs ecsDefaultCredServicePath_def)
  have e1: "?f1 = (Inr (test_payload\<lparr>Code := ''Failure''\<rparr>), snd ?f1)"
    using f1 by (metis prod.collapse)
  have e2: "?f2 = (Inr (test_payload\<lparr>Code := []\<rparr>), snd ?f2)"
    using f2 by (metis prod.collapse)
  show ?thesis
    using metadata_code_validation [OF n1 e1] metadata_code_validation [OF n2 e2] n1 n2 r f1 f2
    by (simp add: test_payload_def)
qed

subsection \<open>signV4\<close>

text \<open>
  Claim C2. When the request body can be read (or there is none) and the credential
  service returns an error, \<^verbatim>\<open>signV4\<close> returns at once the error
  \<^verbatim>\<open>error getting AWS credentials: \<close> followed by the service's error text, and the
  request's headers (and method and URL) are those of the request it was given.
  Moreover, whenever \<^verbatim>\<open>signV4\<close> returns an error of any kind, the headers are unchanged.
\<close>

theorem signV4_credentials_failure:
  assumes "case Body req of None \<Rightarrow> True | Some rd \<Rightarrow> read_error rd = None"
    and "credentials credService = Returns ((creds, Some err), credService')"
  shows "(\<exists>req'. signV4 L credentials req service credService theTime sigVersion =
              Returns (Some (''error getting AWS credentials: '' @ err), req', credService') \<and>
            Header req' = Header req \<and> Method req' = Method req \<and> URL req' = URL req) \<and>
         (\<forall>e req'' s''. signV4 L credentials req service credService theTime sigVersion =
              Returns (Some e, req'', s'') \<longrightarrow> Header req'' = Header req)"
  using assms
  by (auto simp: signV4_def ReadAll_def Let_def split: option.splits)

text \<open>The theorem on the test of the repository: a metadata service whose role the
  server does not know.\<close>

theorem signV4_credentials_failure_witness:
  "(case Body test_request of None \<Rightarrow> True | Some rd \<Rightarrow> read_error rd = None) \<and>
   (\<exists>req' s'. signV4 test_externals (metadata_credService test_externals) test_request ''s3''
        (failing_metadata_service, test_world) 1556129697000000000 ''4'' =
      Returns (Some ''error getting AWS credentials: metadata HTTP request returned unexpected status: 404 Not Found'',
               req', s') \<and>
      Header req' = Header test_request)"
proof -
  have b: "case Body test_request of None \<Rightarrow> True | Some rd \<Rightarrow> read_error rd = None"
    by (simp add: test_request_body)
  obtain s' where c: "metadata_credService test_externals (failing_metadata_service, test_world) =
     Returns ((cached_creds, Some ''metadata HTTP request returned unexpected status: 404 Not Found''), s')"
    using metadata_credService_failing by blast
  from signV4_credentials_failure [where req = test_request
      and credentials = "metadata_credService test_externals"
      and credService = "(failing_metadata_service, test_world)" and creds = cached_creds
      and err = "''metadata HTTP request returned unexpected status: 404 Not Found''"
      and credService' = s' and L = test_externals and service = "''s3''"
      and theTime = 1556129697000000000 and sigVersion = "''4''", OF b c] b
  show ?thesis by auto
qed

text \<open>
  Claim C4. When \<^verbatim>\<open>signV4\<close> returns without error on a request that carries a body, the
  request then carries a reader that yields, without error, exactly the bytes the
  original body held. When the request has no body and credentials are obtained, the
  signer is called with the empty byte sequence as the body.
\<close>

theorem signV4_body_restored:
  "(Body req = Some rd \<and>
    signV4 L credentials req service credService theTime sigVersion = Returns (None, req', credService')
    \<longrightarrow> (\<exists>rd'. Body req' = Some rd' \<and> fst (ReadAll rd') = (pending rd, None))) \<and>
   (Body req = None \<and> credentials credService = Returns ((creds, None), credService') \<longrightarrow>
      signV4 L credentials req service credService theTime sigVersion =
        (if sigVersion = ''4a'' then
           Returns (None,
             req\<lparr>Header := SignV4a L (Header req) (Method req) (URL req) [] service creds (UTC theTime)\<rparr>,
             credService')
         else
           (case Header req of
              None \<Rightarrow> Panics ''assignment to entry in nil map''
            | Some h \<Rightarrow>
                Returns (None,
                  req\<lparr>Header := Some
                    (fold (\<lambda>(k, v) h. Header_Add L h k v)
                       (snd (SignV4 L (Header req) (Method req) (URL req) [] service creds (UTC theTime)))
                       (Header_Set L h ''Authorization''
                          (fst (SignV4 L (Header req) (Method req) (URL req) [] service creds
                                  (UTC theTime)))))\<rparr>,
                  credService'))))"
  by (auto simp: signV4_def ReadAll_def NewReader_def Let_def
           split: option.splits prod.splits outcome.splits if_splits)

text \<open>The theorem on a request with the body \<^verbatim>\<open>payload: 42\<close> signed with scheme 4, and on
  the same request without a body signed with scheme 4a.\<close>

theorem signV4_body_restored_witness:
  "Body test_request = Some (NewReader ''payload: 42'') \<and>
   (\<exists>req' rd'. signV4 test_externals environment_credService test_request ''execute-api'' test_env_world
        1556129697000000000 ''4'' = Returns (None, req', test_env_world) \<and>
      Body req' = Some rd' \<and> fst (ReadAll rd') = (''payload: 42'', None)) \<and>
   Body (test_request\<lparr>Body := None\<rparr>) = None \<and>
   signV4 test_externals environment_credService (test_request\<lparr>Body := None\<rparr>) ''execute-api''
       test_env_world 1556129697000000000 ''4a'' =
     Returns (None,
       test_request\<lparr>Body := None,
         Header := SignV4a test_externals (Header test_request) ''POST''
           ''https://myrestapi.execute-api.us-east-1.amazonaws.com/prod/logs'' [] ''execute-api''
           test_env_creds 1556129697000000000\<rparr>,
       test_env_world)"
proof -
  have e: "\<exists>req'. signV4 test_externals environment_credService test_request ''execute-api'' test_env_world
        1556129697000000000 ''4'' = Returns (None, req', test_env_world)"
    by (simp add: signV4_def environment_credService_test test_request_body ReadAll_def Let_def
        test_request_def split: prod.splits)
  then obtain req' where r: "signV4 test_externals environment_credService test_request ''execute-api''
      test_env_world 1556129697000000000 ''4'' = Returns (None, req', test_env_world)" by blast
  have 1: "\<exists>rd'. Body req' = Some rd' \<and> fst (ReadAll rd') = (''payload: 42'', None)"
    using signV4_body_restored [where req = test_request and rd = "NewReader ''payload: 42''"
        and L = test_externals and credentials = environment_credService and service = "''execute-api''"
        and credService = test_env_world and theTime = 1556129697000000000 and sigVersion = "''4''"
        and req' = req' and credService' = test_env_world] r
    by (simp add: test_request_body)
  have 2: "signV4 test_externals environment_credService (test_request\<lparr>Body := None\<rparr>) ''execute-api''
       test_env_world 1556129697000000000 ''4a'' =
     Returns (None,
       test_request\<lparr>Body := None,
         Header := SignV4a test_externals (Header test_request) ''POST''
           ''https://myrestapi.execute-api.us-east-1.amazonaws.com/prod/logs'' [] ''execute-api''
           test_env_creds 1556129697000000000\<rparr>,
       test_env_world)"
    using signV4_body_restored [where req = "test_request\<lparr>Body := None\<rparr>"
        and L = test_externals and credentials = environment_credService and service = "''execute-api''"
        and credService = test_env_world and theTime = 1556129697000000000 and sigVersion = "''4a''"
        and creds = test_env_creds and credService' = test_env_world] environment_credService_test
    by (simp add: test_request_def UTC_def)
  show ?thesis using r 1 2 by (auto simp: test_request_body)
qed

text \<open>
  Claim C5. Let the body be readable and the credentials be obtained. With the scheme
  \<^verbatim>\<open>4a\<close>, the request's header map becomes the map the signer returns, whatever it held.
  With the scheme \<^verbatim>\<open>4\<close> and an allocated header map, the signer returns an
  \<^verbatim>\<open>Authorization\<close> value and supplementary headers; afterwards the canonical
  \<^verbatim>\<open>Authorization\<close> key holds the signer's value in place of any earlier one, followed by
  the supplementary values added under that key, if any; every other key that no
  supplementary header is added under is unchanged, and a key that supplementary
  headers are added under holds its earlier values, in their order, followed by the
  added ones. When no supplementary header has the canonical name \<^verbatim>\<open>Authorization\<close> (the
  signer of the repository returns none), exactly one \<^verbatim>\<open>Authorization\<close> value is present.
\<close>

theorem signV4_scheme_asymmetry:
  assumes "case Body req of None \<Rightarrow> body = [] | Some rd \<Rightarrow> read_error rd = None \<and> body = pending rd"
    and "credentials credService = Returns ((creds, None), credService')"
  shows
    "signV4 L credentials req service credService theTime ''4a'' =
       Returns (None,
         req\<lparr>Body := map_option (\<lambda>rd. NewReader (pending rd)) (Body req),
             Header := SignV4a L (Header req) (Method req) (URL req) body service creds (UTC theTime)\<rparr>,
         credService') \<and>
     (Header req = Some h \<and>
      SignV4 L (Some h) (Method req) (URL req) body service creds (UTC theTime) = (authHeader, awsHeaders)
      \<longrightarrow>
      (\<exists>h'. signV4 L credentials req service credService theTime ''4'' =
               Returns (None,
                 req\<lparr>Body := map_option (\<lambda>rd. NewReader (pending rd)) (Body req), Header := Some h'\<rparr>,
                 credService') \<and>
             (\<forall>key. h' key =
                (if key = CanonicalMIMEHeaderKey L ''Authorization'' then
                   Some (authHeader #
                         map snd (filter (\<lambda>(k, v). CanonicalMIMEHeaderKey L k = key) awsHeaders))
                 else if map snd (filter (\<lambda>(k, v). CanonicalMIMEHeaderKey L k = key) awsHeaders) = []
                   then h key
                 else Some ((case h key of None \<Rightarrow> [] | Some vs \<Rightarrow> vs) @
                            map snd (filter (\<lambda>(k, v). CanonicalMIMEHeaderKey L k = key) awsHeaders)))) \<and>
             (CanonicalMIMEHeaderKey L ''Authorization'' \<notin> CanonicalMIMEHeaderKey L ` fst ` set awsHeaders
                \<longrightarrow> Header_Values L h' ''Authorization'' = [authHeader])))"
proof (intro conjI impI)
  show "signV4 L credentials req service credService theTime ''4a'' =
       Returns (None,
         req\<lparr>Body := map_option (\<lambda>rd. NewReader (pending rd)) (Body req),
             Header := SignV4a L (Header req) (Method req) (URL req) body service creds (UTC theTime)\<rparr>,
         credService')"
    using assms by (auto simp: signV4_def ReadAll_def Let_def split: option.splits)
next
  assume a: "Header req = Some h \<and>
      SignV4 L (Some h) (Method req) (URL req) body service creds (UTC theTime) = (authHeader, awsHeaders)"
  let ?h' = "fold (\<lambda>(k, v) h. Header_Add L h k v) awsHeaders (Header_Set L h ''Authorization'' authHeader)"
  have 1: "signV4 L credentials req service credService theTime ''4'' =
               Returns (None,
                 req\<lparr>Body := map_option (\<lambda>rd. NewReader (pending rd)) (Body req), Header := Some ?h'\<rparr>,
                 credService')"
    using assms a by (auto simp: signV4_def ReadAll_def Let_def split: option.splits)
  have 2: "\<forall>key. ?h' key =
                (if key = CanonicalMIMEHeaderKey L ''Authorization'' then
                   Some (authHeader #
                         map snd (filter (\<lambda>(k, v). CanonicalMIMEHeaderKey L k = key) awsHeaders))
                 else if map snd (filter (\<lambda>(k, v). CanonicalMIMEHeaderKey L k = key) awsHeaders) = []
                   then h key
                 else Some ((case h key of None \<Rightarrow> [] | Some vs \<Rightarrow> vs) @
                            map snd (filter (\<lambda>(k, v). CanonicalMIMEHeaderKey L k = key) awsHeaders)))"
    by (simp add: fold_Header_Add Header_Set_def)
  have 3: "CanonicalMIMEHeaderKey L ''Authorization'' \<notin> CanonicalMIMEHeaderKey L ` fst ` set awsHeaders
                \<longrightarrow> Header_Values L ?h' ''Authorization'' = [authHeader]"
  proof
    assume n: "CanonicalMIMEHeaderKey L ''Authorization'' \<notin> CanonicalMIMEHeaderKey L ` fst ` set awsHeaders"
    have "filter (\<lambda>(k, v). CanonicalMIMEHeaderKey L k = CanonicalMIMEHeaderKey L ''Authorization'') awsHeaders = []"
      using n by (auto simp: filter_empty_conv image_iff) 
    then show "Header_Values L ?h' ''Authorization'' = [authHeader]"
      using 2 by (simp add: Header_Values_def)
  qed
  from 1 2 3 show "\<exists>h'. signV4 L credentials req service credService theTime ''4'' =
               Returns (None,
                 req\<lparr>Body := map_option (\<lambda>rd. NewReader (pending rd)) (Body req), Header := Some h'\<rparr>,
                 credService') \<and>
             (\<forall>key. h' key =
                (if key = CanonicalMIMEHeaderKey L ''Authorization'' then
                   Some (authHeader #
                         map snd (filter (\<lambda>(k, v). CanonicalMIMEHeaderKey L k = key) awsHeaders))
                 else if map snd (filter (\<lambda>(k, v). CanonicalMIMEHeaderKey L k = key) awsHeaders) = []
                   then h key
                 else Some ((case h key of None \<Rightarrow> [] | Some vs \<Rightarrow> vs) @
                            map snd (filter (\<lambda>(k, v). CanonicalMIMEHeaderKey L k = key) awsHeaders)))) \<and>
             (CanonicalMIMEHeaderKey L ''Authorization'' \<notin> CanonicalMIMEHeaderKey L ` fst ` set awsHeaders
                \<longrightarrow> Header_Values L h' ''Authorization'' = [authHeader])"
    by blast
qed

text \<open>The theorem on a request with two \<^verbatim>\<open>Accept\<close> values and an earlier
  \<^verbatim>\<open>Authorization\<close>, with credentials from the environment.\<close>

theorem signV4_scheme_asymmetry_witness:
  "(case Body test_request of None \<Rightarrow> ''payload: 42'' = [] 
    | Some rd \<Rightarrow> read_error rd = None \<and> ''payload: 42'' = pending rd) \<and>
   environment_credService test_env_world = Returns ((test_env_creds, None), test_env_world) \<and>
   signV4 test_externals environment_credService test_request ''execute-api'' test_env_world
       1556129697000000000 ''4a'' =
     Returns (None,
       test_request\<lparr>Header :=
         Some [''Authorization'' \<mapsto> [''AWS4-ECDSA-P256-SHA256 Credential=MYAWSACCESSKEYGOESHERE'']]\<rparr>,
       test_env_world) \<and>
   (\<exists>h'. signV4 test_externals environment_credService test_request ''execute-api'' test_env_world
        1556129697000000000 ''4'' = Returns (None, test_request\<lparr>Header := Some h'\<rparr>, test_env_world) \<and>
      h' ''Authorization'' = Some [''AWS4-HMAC-SHA256 Credential=MYAWSACCESSKEYGOESHERE''] \<and>
      h' ''Accept'' = Some [''text/plain'', ''text/html''] \<and>
      h' ''Host'' = Some [''mybucket.s3.amazonaws.com''] \<and>
      h' ''X-Amz-Date'' = Some [''20190424T181457Z''] \<and>
      Header_Values test_externals h' ''Authorization'' =
        [''AWS4-HMAC-SHA256 Credential=MYAWSACCESSKEYGOESHERE''])"
proof -
  let ?h = "[''Accept'' \<mapsto> [''text/plain'', ''text/html''],
             ''Authorization'' \<mapsto> [''Auth header will be overwritten'']]"
  have b: "case Body test_request of None \<Rightarrow> ''payload: 42'' = [] 
    | Some rd \<Rightarrow> read_error rd = None \<and> ''payload: 42'' = pending rd"
    by (simp add: test_request_body)
  have h: "Header test_request = Some ?h" by (simp add: test_request_def)
  have s: "SignV4 test_externals (Some ?h) (Method test_request) (URL test_request) ''payload: 42''
      ''execute-api'' test_env_creds (UTC 1556129697000000000) =
      (''AWS4-HMAC-SHA256 Credential=MYAWSACCESSKEYGOESHERE'',
       [(''host'', ''mybucket.s3.amazonaws.com''), (''x-amz-date'', ''20190424T181457Z'')])"
    by (simp add: test_externals_def test_env_creds_def)
  have k: "test_request\<lparr>Body := map_option (\<lambda>rd. NewReader (pending rd)) (Body test_request)\<rparr> = test_request"
    by (simp add: test_request_def NewReader_def)
  note t = signV4_scheme_asymmetry [where req = test_request and body = "''payload: 42''"
      and credentials = environment_credService and credService = test_env_world
      and creds = test_env_creds and credService' = test_env_world
      and L = test_externals and service = "''execute-api''" and theTime = 1556129697000000000
      and h = ?h and authHeader = "''AWS4-HMAC-SHA256 Credential=MYAWSACCESSKEYGOESHERE''"
      and awsHeaders = "[(''host'', ''mybucket.s3.amazonaws.com''), (''x-amz-date'', ''20190424T181457Z'')]",
      OF b environment_credService_test]
  from t have a: "signV4 test_externals environment_credService test_request ''execute-api'' test_env_world
       1556129697000000000 ''4a'' =
     Returns (None,
       test_request\<lparr>Header :=
         Some [''Authorization'' \<mapsto> [''AWS4-ECDSA-P256-SHA256 Credential=MYAWSACCESSKEYGOESHERE'']]\<rparr>,
       test_env_world)"
    by (simp add: test_request_def test_externals_def test_env_creds_def NewReader_def)
  from t h s obtain h' where
    1: "signV4 test_externals environment_credService test_request ''execute-api'' test_env_world
        1556129697000000000 ''4'' = Returns (None,
          test_request\<lparr>Body := map_option (\<lambda>rd. NewReader (pending rd)) (Body test_request),
            Header := Some h'\<rparr>, test_env_world)"
    and 2: "\<forall>key. h' key =
                (if key = CanonicalMIMEHeaderKey test_externals ''Authorization'' then
                   Some (''AWS4-HMAC-SHA256 Credential=MYAWSACCESSKEYGOESHERE'' #
                         map snd (filter (\<lambda>(k, v). CanonicalMIMEHeaderKey test_externals k = key)
                           [(''host'', ''mybucket.s3.amazonaws.com''), (''x-amz-date'', ''20190424T181457Z'')]))
                 else if map snd (filter (\<lambda>(k, v). CanonicalMIMEHeaderKey test_externals k = key)
                           [(''host'', ''mybucket.s3.amazonaws.com''), (''x-amz-date'', ''20190424T181457Z'')]) = []
                   then ?h key
                 else Some ((case ?h key of None \<Rightarrow> [] | Some vs \<Rightarrow> vs) @
                            map snd (filter (\<lambda>(k, v). CanonicalMIMEHeaderKey test_externals k = key)
                           [(''host'', ''mybucket.s3.amazonaws.com''), (''x-amz-date'', ''20190424T181457Z'')])))"
    by blast
  have 3: "h' ''Authorization'' = Some [''AWS4-HMAC-SHA256 Credential=MYAWSACCESSKEYGOESHERE'']"
      "h' ''Accept'' = Some [''text/plain'', ''text/html'']"
      "h' ''Host'' = Some [''mybucket.s3.amazonaws.com'']"
      "h' ''X-Amz-Date'' = Some [''20190424T181457Z'']"
    using 2 by (simp_all add: test_externals_def)
  have 4: "Header_Values test_externals h' ''Authorization'' =
        [''AWS4-HMAC-SHA256 Credential=MYAWSACCESSKEYGOESHERE'']"
    using 3 by (simp add: Header_Values_def test_externals_def)
  show ?thesis
    using b environment_credService_test a 1 3 4 k by auto
qed

text \<open>
  Claim C9. With any scheme selector other than \<^verbatim>\<open>4a\<close> (the empty string and unknown
  values included) \<^verbatim>\<open>signV4\<close> takes the classic path: when the body can be read and the
  credentials are obtained, it calls \<^verbatim>\<open>SignV4\<close> on the request's headers, method, URL and
  body bytes, sets \<^verbatim>\<open>Authorization\<close> to the value returned and adds each supplementary
  header, in that order, and returns without error (on a nil header map the
  \<^verbatim>\<open>Header.Set\<close> panics); \<^verbatim>\<open>SignV4a\<close> is not consulted. Hence it does exactly what it does
  with \<^verbatim>\<open>4\<close>. The selector never causes an error: when \<^verbatim>\<open>signV4\<close> returns an error with
  one selector, it returns the same error, request and service state with every other
  selector; and when the body can be read and the credentials are obtained, it returns
  an error with no selector.
\<close>

theorem signV4_scheme_selector:
  "(sigVersion \<noteq> ''4a'' \<and>
    (case Body req of None \<Rightarrow> body = [] | Some rd \<Rightarrow> read_error rd = None \<and> body = pending rd) \<and>
    credentials credService = Returns ((creds, None), credService'') \<longrightarrow>
      signV4 L credentials req service credService theTime sigVersion =
        (case Header req of
           None \<Rightarrow> Panics ''assignment to entry in nil map''
         | Some h \<Rightarrow>
             Returns (None,
               req\<lparr>Body := map_option (\<lambda>rd. NewReader (pending rd)) (Body req),
                   Header := Some
                     (fold (\<lambda>(k, v) h. Header_Add L h k v)
                        (snd (SignV4 L (Header req) (Method req) (URL req) body service creds
                                (UTC theTime)))
                        (Header_Set L h ''Authorization''
                           (fst (SignV4 L (Header req) (Method req) (URL req) body service creds
                                   (UTC theTime)))))\<rparr>,
               credService''))) \<and>
   (sigVersion \<noteq> ''4a'' \<longrightarrow>
      signV4 L credentials req service credService theTime sigVersion =
      signV4 L credentials req service credService theTime ''4'') \<and>
   (signV4 L credentials req service credService theTime sigVersion = Returns (Some err, req', credService')
      \<longrightarrow> signV4 L credentials req service credService theTime sigVersion' =
            Returns (Some err, req', credService')) \<and>
   ((case Body req of None \<Rightarrow> True | Some rd \<Rightarrow> read_error rd = None) \<and>
    credentials credService = Returns ((creds, None), credService'') \<longrightarrow>
      (\<forall>e r s. signV4 L credentials req service credService theTime sigVersion \<noteq>
                 Returns (Some e, r, s)))"
proof (intro conjI impI)
  assume a: "sigVersion \<noteq> ''4a'' \<and>
    (case Body req of None \<Rightarrow> body = [] | Some rd \<Rightarrow> read_error rd = None \<and> body = pending rd) \<and>
    credentials credService = Returns ((creds, None), credService'')"
  then show "signV4 L credentials req service credService theTime sigVersion =
        (case Header req of
           None \<Rightarrow> Panics ''assignment to entry in nil map''
         | Some h \<Rightarrow>
             Returns (None,
               req\<lparr>Body := map_option (\<lambda>rd. NewReader (pending rd)) (Body req),
                   Header := Some
                     (fold (\<lambda>(k, v) h. Header_Add L h k v)
                        (snd (SignV4 L (Header req) (Method req) (URL req) body service creds
                                (UTC theTime)))
                        (Header_Set L h ''Authorization''
                           (fst (SignV4 L (Header req) (Method req) (URL req) body service creds
                                   (UTC theTime)))))\<rparr>,
               credService''))"
    by (auto simp: signV4_def ReadAll_def Let_def split: option.splits prod.splits)
next
  assume "sigVersion \<noteq> ''4a''"
  then show "signV4 L credentials req service credService theTime sigVersion =
      signV4 L credentials req service credService theTime ''4''"
    by (auto simp: signV4_def Let_def split: option.splits prod.splits outcome.splits if_splits)
next
  assume "signV4 L credentials req service credService theTime sigVersion =
      Returns (Some err, req', credService')"
  then show "signV4 L credentials req service credService theTime sigVersion' =
      Returns (Some err, req', credService')"
    by (auto simp: signV4_def Let_def split: option.splits prod.splits outcome.splits if_splits)
next
  assume "(case Body req of None \<Rightarrow> True | Some rd \<Rightarrow> read_error rd = None) \<and>
    credentials credService = Returns ((creds, None), credService'')"
  then show "\<forall>e r s. signV4 L credentials req service credService theTime sigVersion \<noteq>
      Returns (Some e, r, s)"
    by (auto simp: signV4_def ReadAll_def Let_def split: option.splits prod.splits)
qed

text \<open>The theorem with the empty selector on a request with two \<^verbatim>\<open>Accept\<close> values and an
  earlier \<^verbatim>\<open>Authorization\<close>, with the selector \<^verbatim>\<open>v4a\<close>, and on a failing credential service
  with the selectors \<^verbatim>\<open>4\<close> and \<^verbatim>\<open>4a\<close>.\<close>

theorem signV4_scheme_selector_witness:
  "[] \<noteq> ''4a'' \<and>
   (case Body test_request of None \<Rightarrow> ''payload: 42'' = []
    | Some rd \<Rightarrow> read_error rd = None \<and> ''payload: 42'' = pending rd) \<and>
   environment_credService test_env_world = Returns ((test_env_creds, None), test_env_world) \<and>
   (\<exists>h'. signV4 test_externals environment_credService test_request ''execute-api'' test_env_world
        1556129697000000000 [] = Returns (None, test_request\<lparr>Header := Some h'\<rparr>, test_env_world) \<and>
      h' ''Authorization'' = Some [''AWS4-HMAC-SHA256 Credential=MYAWSACCESSKEYGOESHERE''] \<and>
      h' ''Accept'' = Some [''text/plain'', ''text/html''] \<and>
      h' ''Host'' = Some [''mybucket.s3.amazonaws.com''] \<and>
      h' ''X-Amz-Date'' = Some [''20190424T181457Z'']) \<and>
   signV4 test_externals environment_credService test_request ''execute-api'' test_env_world
       1556129697000000000 [] =
     signV4 test_externals environment_credService test_request ''execute-api'' test_env_world
       1556129697000000000 ''4'' \<and>
   signV4 test_externals environment_credService test_request ''execute-api'' test_env_world
       1556129697000000000 ''v4a'' =
     signV4 test_externals environment_credService test_request ''execute-api'' test_env_world
       1556129697000000000 ''4'' \<and>
   (\<exists>req' s'. signV4 test_externals (metadata_credService test_externals) test_request ''s3''
        (failing_metadata_service, test_world) 1556129697000000000 ''4'' =
      Returns (Some ''error getting AWS credentials: metadata HTTP request returned unexpected status: 404 Not Found'',
               req', s') \<and>
      signV4 test_externals (metadata_credService test_externals) test_request ''s3''
        (failing_metadata_service, test_world) 1556129697000000000 ''4a'' =
      Returns (Some ''error getting AWS credentials: metadata HTTP request returned unexpected status: 404 Not Found'',
               req', s'))"
proof -
  let ?h = "[''Accept'' \<mapsto> [''text/plain'', ''text/html''],
             ''Authorization'' \<mapsto> [''Auth header will be overwritten'']]"
  let ?h' = "fold (\<lambda>(k, v) h. Header_Add test_externals h k v)
      [(''host'', ''mybucket.s3.amazonaws.com''), (''x-amz-date'', ''20190424T181457Z'')]
      (Header_Set test_externals ?h ''Authorization''
         ''AWS4-HMAC-SHA256 Credential=MYAWSACCESSKEYGOESHERE'')"
  obtain s' where c: "metadata_credService test_externals (failing_metadata_service, test_world) =
     Returns ((cached_creds, Some ''metadata HTTP request returned unexpected status: 404 Not Found''), s')"
    using metadata_credService_failing by blast
  have e: "signV4 test_externals (metadata_credService test_externals) test_request ''s3''
        (failing_metadata_service, test_world) 1556129697000000000 ''4'' =
      Returns (Some ''error getting AWS credentials: metadata HTTP request returned unexpected status: 404 Not Found'',
               test_request, s')"
    by (simp add: signV4_def c test_request_body ReadAll_def test_request_def)
  have n: "[] \<noteq> ''4a''" "''v4a'' \<noteq> ''4a''" by simp_all
  have b: "case Body test_request of None \<Rightarrow> ''payload: 42'' = []
    | Some rd \<Rightarrow> read_error rd = None \<and> ''payload: 42'' = pending rd"
    by (simp add: test_request_body)
  have hd: "Header test_request = Some ?h" by (simp add: test_request_def)
  have sg: "SignV4 test_externals (Header test_request) (Method test_request) (URL test_request)
      ''payload: 42'' ''execute-api'' test_env_creds (UTC 1556129697000000000) =
      (''AWS4-HMAC-SHA256 Credential=MYAWSACCESSKEYGOESHERE'',
       [(''host'', ''mybucket.s3.amazonaws.com''), (''x-amz-date'', ''20190424T181457Z'')])"
    by (simp add: test_externals_def test_env_creds_def)
  have k: "test_request\<lparr>Body := map_option (\<lambda>rd. NewReader (pending rd)) (Body test_request)\<rparr> =
      test_request"
    by (simp add: test_request_def NewReader_def)
  have 0: "signV4 test_externals environment_credService test_request ''execute-api'' test_env_world
        1556129697000000000 [] = Returns (None, test_request\<lparr>Header := Some ?h'\<rparr>, test_env_world)"
    using signV4_scheme_selector [where sigVersion = "[]" and L = test_externals
        and credentials = environment_credService and req = test_request
        and body = "''payload: 42''" and creds = test_env_creds and credService'' = test_env_world
        and service = "''execute-api''" and credService = test_env_world
        and theTime = 1556129697000000000] n(1) b environment_credService_test hd sg k
    by simp
  have v: "?h' ''Authorization'' = Some [''AWS4-HMAC-SHA256 Credential=MYAWSACCESSKEYGOESHERE'']"
      "?h' ''Accept'' = Some [''text/plain'', ''text/html'']"
      "?h' ''Host'' = Some [''mybucket.s3.amazonaws.com'']"
      "?h' ''X-Amz-Date'' = Some [''20190424T181457Z'']"
    by (simp_all add: Header_Add_def Header_Values_def Header_Set_def test_externals_def)
  have 1: "signV4 test_externals environment_credService test_request ''execute-api'' test_env_world
       1556129697000000000 [] =
     signV4 test_externals environment_credService test_request ''execute-api'' test_env_world
       1556129697000000000 ''4''"
    using signV4_scheme_selector [where sigVersion = "[]" and L = test_externals
        and credentials = environment_credService and req = test_request
        and service = "''execute-api''" and credService = test_env_world
        and theTime = 1556129697000000000] n(1)
    by blast
  have 2: "signV4 test_externals environment_credService test_request ''execute-api'' test_env_world
       1556129697000000000 ''v4a'' =
     signV4 test_externals environment_credService test_request ''execute-api'' test_env_world
       1556129697000000000 ''4''"
    using signV4_scheme_selector [where sigVersion = "''v4a''" and L = test_externals
        and credentials = environment_credService and req = test_request
        and service = "''execute-api''" and credService = test_env_world
        and theTime = 1556129697000000000] n(2)
    by blast
  have 3: "signV4 test_externals (metadata_credService test_externals) test_request ''s3''
        (failing_metadata_service, test_world) 1556129697000000000 ''4a'' =
      Returns (Some ''error getting AWS credentials: metadata HTTP request returned unexpected status: 404 Not Found'',
               test_request, s')"
    using signV4_scheme_selector [where sigVersion = "''4''" and sigVersion' = "''4a''"
        and L = test_externals and credentials = "metadata_credService test_externals"
        and req = test_request and service = "''s3''"
        and credService = "(failing_metadata_service, test_world)"
        and theTime = 1556129697000000000 and req' = test_request and credService' = s'
        and err = "''error getting AWS credentials: metadata HTTP request returned unexpected status: 404 Not Found''"]
      e
    by blast
  from 0 v have 4: "\<exists>h'. signV4 test_externals environment_credService test_request ''execute-api''
        test_env_world 1556129697000000000 [] =
        Returns (None, test_request\<lparr>Header := Some h'\<rparr>, test_env_world) \<and>
      h' ''Authorization'' = Some [''AWS4-HMAC-SHA256 Credential=MYAWSACCESSKEYGOESHERE''] \<and>
      h' ''Accept'' = Some [''text/plain'', ''text/html''] \<and>
      h' ''Host'' = Some [''mybucket.s3.amazonaws.com''] \<and>
      h' ''X-Amz-Date'' = Some [''20190424T181457Z'']"
    by blast
  from n(1) b environment_credService_test 4 1 2 3 e show ?thesis by blast
qed

end
